theory Spec2Isabelle
  imports Main "HOL-Library.AList"
begin

section \<open>Session lifecycle manager of server.js\<close>

text \<open>
  The service keeps five JavaScript \<^verbatim>\<open>Map\<close>s keyed by the agent identifier and one
  directory of credential files per agent. A \<^verbatim>\<open>Map\<close> keeps insertion order and
  \<^verbatim>\<open>countConnectedClients\<close> and the sweeper iterate over \<^verbatim>\<open>clients\<close>, so the maps
  are association lists: \<^verbatim>\<open>set\<close> is \<open>AList.update\<close> (in place for a known key, appended
  otherwise), \<^verbatim>\<open>delete\<close> is \<open>AList.delete\<close>, \<^verbatim>\<open>get\<close> is \<open>map_of\<close>.

  The credential store is modelled at the level of the stored blob: \<open>authStore s a\<close> is the
  content of the directory \<^verbatim>\<open>auth_sessions/a\<close> when it holds credentials. \<^verbatim>\<open>existsSync\<close> followed by
  \<^verbatim>\<open>rmSync(..., {recursive, force})\<close> leaves no blob, whether or not the directory was there.
  Agent identifiers are taken as plain file names.

  JavaScript runs a handler without interruption up to its next \<^verbatim>\<open>await\<close>. Each
  function below is a handler or a part of one, taken as a single uninterrupted step:
  the promise of \<^verbatim>\<open>initializeClient\<close> and the delayed reconnect split the handlers that
  wait for them into separate steps, while the shorter waits (the logout and the pause
  inside \<^verbatim>\<open>destroyClient\<close>, the notification in the \<^verbatim>\<open>open\<close> branch, the loading of the
  credentials) are not interleaved with other handlers. \<open>step\<close> further down lets the
  steps happen in any order. Console output is not part of the state.
\<close>

subsection \<open>State\<close>

type_synonym agent = string
type_synonym creds = string

datatype conn_state = Connecting | Open | Close

text \<open>The value stored in \<^verbatim>\<open>clients\<close>: \<^verbatim>\<open>{ sock, store, saveCreds }\<close>. The socket is a
  handle; \<open>user_id\<close> is what \<^verbatim>\<open>sock.user?.id\<close> reads through it.\<close>

record client =
  sock :: nat
  user_id :: "string option"

record server =
  clients :: "(agent \<times> client) list"
  qrCodes :: "(agent \<times> string) list"
  qrTimeouts :: "(agent \<times> nat) list"
  clientStates :: "(agent \<times> conn_state) list"
  reconnectAttempts :: "(agent \<times> nat) list"
  authStore :: "agent \<rightharpoonup> creds"

definition MAX_CONCURRENT_SESSIONS :: nat where
  "MAX_CONCURRENT_SESSIONS = 5"

definition QR_TIMEOUT_MS :: nat where
  "QR_TIMEOUT_MS = 3 * 60 * 1000"

definition MAX_RECONNECT_ATTEMPTS :: nat where
  "MAX_RECONNECT_ATTEMPTS = 5"

definition initial_server :: server where
  "initial_server = \<lparr>clients = [], qrCodes = [], qrTimeouts = [], clientStates = [],
     reconnectAttempts = [], authStore = Map.empty\<rparr>"

subsection \<open>Helpers\<close>

text \<open>A pending timer is stored as its duration in milliseconds. A timer handle is always
  truthy, so \<^verbatim>\<open>if (timeout)\<close> asks whether the map has an entry.\<close>

definition clearQrTimeout :: "agent \<Rightarrow> server \<Rightarrow> server" where
  "clearQrTimeout agentId s =
     (case map_of (qrTimeouts s) agentId of
        Some timeout \<Rightarrow> s\<lparr>qrTimeouts := AList.delete agentId (qrTimeouts s)\<rparr>
      | None \<Rightarrow> s)"

text \<open>\<^verbatim>\<open>jid.split('@')[0].split(':')[0]\<close>, and the empty string for a falsy jid.\<close>

definition jidToPhone :: "string option \<Rightarrow> string" where
  "jidToPhone jid =
     (case jid of
        None \<Rightarrow> []
      | Some j \<Rightarrow> takeWhile (\<lambda>c. c \<noteq> CHR '':'') (takeWhile (\<lambda>c. c \<noteq> CHR ''@'') j))"

definition countConnectedClients :: "server \<Rightarrow> nat" where
  "countConnectedClients s =
     length (filter (\<lambda>(agentId, c). map_of (clientStates s) agentId = Some Open) (clients s))"

subsection \<open>destroyClient\<close>

text \<open>
  \<^verbatim>\<open>destroyClient\<close> clears the pairing timer, asks the transport to log out (and ends the
  socket when that throws), removes the credential directory and deletes the account from
  \<^verbatim>\<open>clients\<close>, \<^verbatim>\<open>qrCodes\<close> and \<^verbatim>\<open>clientStates\<close>. It does not touch \<^verbatim>\<open>reconnectAttempts\<close>.
  The transport commands it issues are given by \<open>destroyClient_calls\<close>; they do not
  change the maps by themselves. What the transport does with them comes back as
  events, see \<open>logout_event\<close> below.
\<close>

datatype transport_call = Logout nat | End nat

definition destroyClient_calls :: "agent \<Rightarrow> bool \<Rightarrow> server \<Rightarrow> transport_call list" where
  "destroyClient_calls agentId logout_throws s =
     (case map_of (clients s) agentId of
        None \<Rightarrow> []
      | Some clientData \<Rightarrow>
          if logout_throws then [Logout (sock clientData), End (sock clientData)]
          else [Logout (sock clientData)])"

definition destroyClient :: "agent \<Rightarrow> server \<Rightarrow> server" where
  "destroyClient agentId s =
     (let s1 = clearQrTimeout agentId s;
          s2 = (case authStore s1 agentId of
                  Some blob \<Rightarrow> s1\<lparr>authStore := (authStore s1)(agentId := None)\<rparr>
                | None \<Rightarrow> s1)
      in s2\<lparr>clients := AList.delete agentId (clients s2),
            qrCodes := AList.delete agentId (qrCodes s2),
            clientStates := AList.delete agentId (clientStates s2)\<rparr>)"

subsection \<open>initializeClient\<close>

text \<open>
  The part of \<^verbatim>\<open>initializeClient\<close> that runs before the socket exists: a fresh init
  (\<^verbatim>\<open>isReconnect\<close> false) of an account without a client record removes the stored
  credentials; a reconnect keeps them. \<^verbatim>\<open>useMultiFileAuthState\<close> then reads what is left.
\<close>

definition initializeClient_begin :: "agent \<Rightarrow> bool \<Rightarrow> server \<Rightarrow> server" where
  "initializeClient_begin agentId isReconnect s =
     (if \<not> isReconnect \<and> map_of (clients s) agentId = None then
        (case authStore s agentId of
           Some blob \<Rightarrow> s\<lparr>authStore := (authStore s)(agentId := None)\<rparr>
         | None \<Rightarrow> s)
      else s)"

text \<open>The credentials the new socket is created with (\<^verbatim>\<open>auth: state\<close>).\<close>

definition initializeClient_auth :: "agent \<Rightarrow> bool \<Rightarrow> server \<Rightarrow> creds option" where
  "initializeClient_auth agentId isReconnect s =
     authStore (initializeClient_begin agentId isReconnect s) agentId"

subsection \<open>The promise returned by initializeClient\<close>

datatype init_error = QrRenderError | ConnectionClosed "nat option" | QrNotGenerated

datatype settle = Resolved client | Rejected init_error

text \<open>What one call of \<^verbatim>\<open>initializeClient\<close> closes over: the agent, the socket it made,
  the flag \<^verbatim>\<open>qrResolved\<close>, and the calls of \<^verbatim>\<open>resolve\<close> and \<^verbatim>\<open>reject\<close> made so far.\<close>

record session =
  agentId :: agent
  clientData :: client
  qrResolved :: bool
  settled :: "settle list"

definition new_session :: "agent \<Rightarrow> client \<Rightarrow> session" where
  "new_session a c = \<lparr>agentId = a, clientData = c, qrResolved = False, settled = []\<rparr>"

definition settle_once :: "settle \<Rightarrow> session \<Rightarrow> session" where
  "settle_once r ss =
     (if \<not> qrResolved ss then ss\<lparr>qrResolved := True, settled := settled ss @ [r]\<rparr> else ss)"

subsection \<open>The connection.update handler\<close>

text \<open>The \<^verbatim>\<open>qr\<close> field of an update together with the outcome of \<^verbatim>\<open>QRCode.toDataURL\<close>.\<close>

datatype qr_render = Rendered string | RenderFailed

datatype connection = ConnConnecting | ConnOpen | ConnClose

record disconnect_error =
  output_statusCode :: "nat option"
  statusCode :: "nat option"

record update =
  qr :: "qr_render option"
  connection :: "connection option"
  lastDisconnect :: "disconnect_error option"

text \<open>Lines 243-270. The state part and the promise part of the \<^verbatim>\<open>qr\<close> branch.\<close>

definition qr_effect :: "agent \<Rightarrow> qr_render \<Rightarrow> server \<Rightarrow> server" where
  "qr_effect a r s =
     (case r of
        Rendered qrImage \<Rightarrow>
          (let s1 = s\<lparr>qrCodes := AList.update a qrImage (qrCodes s)\<rparr>;
               s2 = clearQrTimeout a s1
           in s2\<lparr>qrTimeouts := AList.update a QR_TIMEOUT_MS (qrTimeouts s2)\<rparr>)
      | RenderFailed \<Rightarrow> s)"

definition qr_settle :: "qr_render \<Rightarrow> session \<Rightarrow> session" where
  "qr_settle r ss =
     (case r of
        Rendered qrImage \<Rightarrow> settle_once (Resolved (clientData ss)) ss
      | RenderFailed \<Rightarrow> settle_once (Rejected QrRenderError) ss)"

text \<open>Lines 273-311. The notification of the edge function changes none of the maps.\<close>

definition open_effect :: "agent \<Rightarrow> server \<Rightarrow> server" where
  "open_effect a s =
     (let s1 = clearQrTimeout a s;
          s2 = s1\<lparr>clientStates := AList.update a Open (clientStates s1)\<rparr>;
          s3 = s2\<lparr>reconnectAttempts := AList.delete a (reconnectAttempts s2)\<rparr>
      in s3\<lparr>qrCodes := AList.delete a (qrCodes s3)\<rparr>)"

definition open_settle :: "session \<Rightarrow> session" where
  "open_settle ss = settle_once (Resolved (clientData ss)) ss"

text \<open>
  Lines 314-371. \<^verbatim>\<open>error?.output?.statusCode || error?.statusCode\<close>: the first when it is
  a non-zero number, else the second. \<^verbatim>\<open>DisconnectReason.loggedOut\<close> belongs to the
  transport library and is the parameter \<open>loggedOut\<close>.
\<close>

definition close_statusCode :: "disconnect_error option \<Rightarrow> nat option" where
  "close_statusCode e =
     (case e of
        None \<Rightarrow> None
      | Some err \<Rightarrow>
          (case output_statusCode err of
             Some n \<Rightarrow> if n \<noteq> 0 then Some n else statusCode err
           | None \<Rightarrow> statusCode err))"

definition shouldReconnect :: "nat \<Rightarrow> disconnect_error option \<Rightarrow> bool" where
  "shouldReconnect loggedOut e = (close_statusCode e \<noteq> Some loggedOut)"

definition reconnect_delay :: "nat \<Rightarrow> nat" where
  "reconnect_delay attempts = min (attempts * 2000) 10000"

text \<open>What the \<^verbatim>\<open>close\<close> branch goes on to do: wait \<open>delay\<close> milliseconds and call
  \<^verbatim>\<open>initializeClient(agentId, true)\<close>, or stop.\<close>

datatype close_outcome = Reconnect nat nat | GaveUp | LoggedOut

definition close_effect ::
  "nat \<Rightarrow> agent \<Rightarrow> disconnect_error option \<Rightarrow> server \<Rightarrow> server \<times> close_outcome" where
  "close_effect loggedOut a e s =
     (let s1 = s\<lparr>clientStates := AList.update a Close (clientStates s)\<rparr> in
      if shouldReconnect loggedOut e then
        (let attempts = (case map_of (reconnectAttempts s1) a of None \<Rightarrow> 0 | Some n \<Rightarrow> n) + 1;
             s2 = s1\<lparr>reconnectAttempts := AList.update a attempts (reconnectAttempts s1)\<rparr>
         in if attempts \<le> MAX_RECONNECT_ATTEMPTS then
              (s2, Reconnect attempts (reconnect_delay attempts))
            else
              (s2\<lparr>reconnectAttempts := AList.delete a (reconnectAttempts s2),
                  clients := AList.delete a (clients s2),
                  qrCodes := AList.delete a (qrCodes s2),
                  clientStates := AList.delete a (clientStates s2)\<rparr>, GaveUp))
      else
        (let s2 = clearQrTimeout a s1;
             s3 = s2\<lparr>clients := AList.delete a (clients s2),
                     qrCodes := AList.delete a (qrCodes s2),
                     clientStates := AList.delete a (clientStates s2),
                     reconnectAttempts := AList.delete a (reconnectAttempts s2)\<rparr>
         in (case authStore s3 a of
               Some blob \<Rightarrow> (s3\<lparr>authStore := (authStore s3)(a := None)\<rparr>, LoggedOut)
             | None \<Rightarrow> (s3, LoggedOut))))"

text \<open>Lines 332-339: after the delay, the outcome of the awaited
  \<^verbatim>\<open>initializeClient(agentId, true)\<close>.\<close>

definition reconnect_settled :: "agent \<Rightarrow> settle \<Rightarrow> server \<Rightarrow> server" where
  "reconnect_settled a r s =
     (case r of
        Resolved reconnected \<Rightarrow> s\<lparr>clients := AList.update a reconnected (clients s)\<rparr>
      | Rejected reconnectError \<Rightarrow>
          s\<lparr>clients := AList.delete a (clients s),
            clientStates := AList.delete a (clientStates s)\<rparr>)"

text \<open>Lines 367-370, the last statement of the \<^verbatim>\<open>close\<close> branch.\<close>

definition close_settle :: "disconnect_error option \<Rightarrow> session \<Rightarrow> session" where
  "close_settle e ss = settle_once (Rejected (ConnectionClosed (close_statusCode e))) ss"

subsection \<open>HTTP handlers\<close>

datatype response =
    BadRequest
  | AlreadyConnected string
  | CapacityError nat nat
  | QrResponse string agent nat
  | ServerError init_error
  | Disconnected

text \<open>
  \<^verbatim>\<open>POST /init\<close> up to the awaited promise (lines 584-632). \<open>Inl\<close> is a response sent
  without creating anything; \<open>Inr\<close> is the state in which the new socket starts, after
  the teardown of a client that was not open and the first part of \<^verbatim>\<open>initializeClient\<close>.
\<close>

definition post_init_begin :: "agent \<Rightarrow> server \<Rightarrow> response + server" where
  "post_init_begin agent_id s =
     (if agent_id = [] then Inl BadRequest
      else
        let existingClient = map_of (clients s) agent_id in
        if existingClient \<noteq> None \<and> map_of (clientStates s) agent_id = Some Open then
          Inl (AlreadyConnected (jidToPhone (user_id (the existingClient))))
        else
          let activeCount = countConnectedClients s in
          if activeCount \<ge> MAX_CONCURRENT_SESSIONS \<and> existingClient = None then
            Inl (CapacityError activeCount MAX_CONCURRENT_SESSIONS)
          else
            let s1 = (if existingClient \<noteq> None then destroyClient agent_id s else s)
            in Inr (initializeClient_begin agent_id False s1))"

text \<open>
  The rest of \<^verbatim>\<open>POST /init\<close> (lines 632-667), once the promise has settled. A stored QR
  image counts only when it is a non-empty string (\<^verbatim>\<open>!qrCode\<close>).
\<close>

definition post_init_end :: "agent \<Rightarrow> settle \<Rightarrow> server \<Rightarrow> server \<times> response" where
  "post_init_end agent_id r s =
     (case r of
        Rejected initError \<Rightarrow> (destroyClient agent_id s, ServerError initError)
      | Resolved cd \<Rightarrow>
          (let s1 = s\<lparr>clients := AList.update agent_id cd (clients s)\<rparr>;
               s2 = s1\<lparr>clientStates := AList.update agent_id Connecting (clientStates s1)\<rparr>;
               qrCode = map_of (qrCodes s2) agent_id;
               noQr = (qrCode = None \<or> qrCode = Some [])
           in if noQr \<and> map_of (clientStates s2) agent_id = Some Open then
                (s2, AlreadyConnected (jidToPhone (user_id cd)))
              else if noQr then
                (destroyClient agent_id s2, ServerError QrNotGenerated)
              else
                (s2, QrResponse (the qrCode) agent_id (QR_TIMEOUT_MS div 1000))))"

text \<open>\<^verbatim>\<open>POST /disconnect/:agent_id\<close> (lines 820-832).\<close>

definition post_disconnect :: "agent \<Rightarrow> server \<Rightarrow> server \<times> response" where
  "post_disconnect agent_id s = (destroyClient agent_id s, Disconnected)"

subsection \<open>Timers\<close>

text \<open>The pairing timer of an account can fire only while \<^verbatim>\<open>qrTimeouts\<close> holds it: every
  path that replaces or drops the entry clears the timer first.\<close>

definition qr_timeout_fired :: "agent \<Rightarrow> server \<Rightarrow> server" where
  "qr_timeout_fired a s =
     (case map_of (qrTimeouts s) a of
        Some timeout \<Rightarrow> destroyClient a s
      | None \<Rightarrow> s)"

text \<open>The sweeper (lines 835-855).\<close>

definition cleanup_client :: "agent \<Rightarrow> server \<Rightarrow> server" where
  "cleanup_client a s =
     (let state = map_of (clientStates s) a in
      if state \<noteq> Some Open \<and> state \<noteq> Some Connecting then destroyClient a s else s)"

definition cleanup :: "server \<Rightarrow> server" where
  "cleanup s = fold cleanup_client (map fst (clients s)) s"

text \<open>\<^verbatim>\<open>creds.update\<close> is handled by the library's \<^verbatim>\<open>saveCreds\<close>, which writes the blob
  into the directory that \<^verbatim>\<open>useMultiFileAuthState\<close> made. The model does not keep track of
  the directory: after a teardown has removed it, \<^verbatim>\<open>saveCreds\<close> of a socket made before
  the teardown fails in the code, where \<open>creds_update\<close> stores the blob. The example runs
  below use it only while the directory is there.\<close>

definition creds_update :: "agent \<Rightarrow> creds \<Rightarrow> server \<Rightarrow> server" where
  "creds_update a c s = s\<lparr>authStore := (authStore s)(a \<mapsto> c)\<rparr>"

subsection \<open>Runs of the server\<close>

text \<open>
  One event is one step of a handler. The settling of a promise is an event of its own
  and may come at any time, and a transport event may come for any account, so the runs
  below include those of the service and more.
\<close>

datatype event =
    PostInit agent
  | InitSettled agent settle
  | PostDisconnect agent
  | QrEvent agent qr_render
  | OpenEvent agent
  | CloseEvent agent "disconnect_error option"
  | ReconnectStarted agent
  | ReconnectSettled agent settle
  | QrTimeoutFired agent
  | CredsUpdate agent creds
  | Cleanup

fun step :: "nat \<Rightarrow> event \<Rightarrow> server \<Rightarrow> server" where
  "step lo (PostInit a) s = (case post_init_begin a s of Inl r \<Rightarrow> s | Inr s' \<Rightarrow> s')"
| "step lo (InitSettled a r) s = fst (post_init_end a r s)"
| "step lo (PostDisconnect a) s = fst (post_disconnect a s)"
| "step lo (QrEvent a r) s = qr_effect a r s"
| "step lo (OpenEvent a) s = open_effect a s"
| "step lo (CloseEvent a e) s = fst (close_effect lo a e s)"
| "step lo (ReconnectStarted a) s = initializeClient_begin a True s"
| "step lo (ReconnectSettled a r) s = reconnect_settled a r s"
| "step lo (QrTimeoutFired a) s = qr_timeout_fired a s"
| "step lo (CredsUpdate a c) s = creds_update a c s"
| "step lo Cleanup s = cleanup s"

definition run :: "nat \<Rightarrow> event list \<Rightarrow> server \<Rightarrow> server" where
  "run lo evs s = fold (step lo) evs s"

text \<open>
  The transport library is not part of the repository. It answers the \<^verbatim>\<open>logout\<close> of a
  socket that is still connected by closing it with the logged-out code, and the socket
  reports that as a close event to its own handler; on a socket that has already
  closed, \<^verbatim>\<open>logout\<close> (whether it throws or not) and \<^verbatim>\<open>end\<close> report nothing.
  \<open>logout_event lo closed a h\<close> are the events that follow the logout of socket \<open>h\<close> of
  account \<open>a\<close>, when \<open>closed\<close> are the sockets that have closed and the logout of a
  connected socket does not throw. A run that tears down a connected socket is
  therefore continued by this close event.
\<close>

definition logout_event :: "nat \<Rightarrow> nat set \<Rightarrow> agent \<Rightarrow> nat \<Rightarrow> event list" where
  "logout_event lo closed a h =
     (if h \<in> closed then []
      else [CloseEvent a (Some \<lparr>output_statusCode = Some lo, statusCode = None\<rparr>)])"

text \<open>The calls of \<^verbatim>\<open>resolve\<close> and \<^verbatim>\<open>reject\<close> that one update makes, in handler order.
  On the reconnect path the code reaches the \<^verbatim>\<open>reject\<close> of the \<^verbatim>\<open>close\<close> branch only after
  the awaited delay and reconnect, so updates that arrive in between are handled
  before it; that order is the list in which the close comes later, as an update of its
  own.\<close>

definition update_settle :: "update \<Rightarrow> session \<Rightarrow> session" where
  "update_settle u ss =
     (let ss1 = (case qr u of Some r \<Rightarrow> qr_settle r ss | None \<Rightarrow> ss);
          ss2 = (if connection u = Some ConnOpen then open_settle ss1 else ss1)
      in if connection u = Some ConnClose then close_settle (lastDisconnect u) ss2 else ss2)"

definition deliver :: "update list \<Rightarrow> session \<Rightarrow> session" where
  "deliver us ss = fold update_settle us ss"

text \<open>The whole handler on one update whose \<^verbatim>\<open>close\<close> branch does not wait for a
  reconnect: state and promise together.\<close>

definition connection_update ::
  "nat \<Rightarrow> update \<Rightarrow> server \<times> session \<Rightarrow> server \<times> session" where
  "connection_update lo u p =
     (let s = fst p; ss = snd p; a = agentId ss;
          s1 = (case qr u of Some r \<Rightarrow> qr_effect a r s | None \<Rightarrow> s);
          s2 = (if connection u = Some ConnOpen then open_effect a s1 else s1);
          s3 = (if connection u = Some ConnClose
                then fst (close_effect lo a (lastDisconnect u) s2) else s2)
      in (s3, update_settle u ss))"

section \<open>Event relay\<close>

text \<open>
  The \<^verbatim>\<open>messages.upsert\<close> handler. A JavaScript string is a \<open>string\<close> here, one \<open>char\<close>
  standing for one UTF-16 code unit, so that \<^verbatim>\<open>substring(0, 100)\<close> is \<open>take 100\<close>. A
  missing field is \<open>None\<close>. The body label, the contact names and the constant source
  tag of the record are left out; everything the media and reply branches decide is kept.
\<close>

subsection \<open>Messages\<close>

record media_content =
  caption :: "string option"
  mimetype :: "string option"
  ptt :: bool
  seconds :: "nat option"

datatype message = Message
    (conversation: "string option")
    (extendedTextMessage: "extended_text option")
    (imageMessage: "media_content option")
    (videoMessage: "media_content option")
    (audioMessage: "media_content option")
    (documentMessage: "media_content option")
    (stickerMessage: "media_content option")
and extended_text = ExtendedText
    (ext_text: "string option")
    (contextInfo: "context_info option")
and context_info = ContextInfo
    (stanzaId: "string option")
    (participant: "string option")
    (quotedMessage: "message option")

record wa_message =
  fromMe :: bool
  remoteJid :: "string option"
  key_participant :: "string option"
  key_id :: string
  content :: "message option"
  pushName :: "string option"
  messageTimestamp :: nat

record contact =
  contact_id :: "string option"
  contact_name :: "string option"

subsection \<open>JavaScript string operations\<close>

text \<open>\<^verbatim>\<open>x || d\<close> for a string \<open>x\<close> that may be missing: the empty string is falsy.\<close>

definition or_else :: "string option \<Rightarrow> string \<Rightarrow> string" where
  "or_else x d = (case x of None \<Rightarrow> d | Some v \<Rightarrow> if v = [] then d else v)"

definition or_null :: "string option \<Rightarrow> string option" where
  "or_null x = (case x of None \<Rightarrow> None | Some v \<Rightarrow> if v = [] then None else Some v)"

fun starts_with :: "string \<Rightarrow> string \<Rightarrow> bool" where
  "starts_with s [] = True"
| "starts_with [] (p # ps) = False"
| "starts_with (c # cs) (p # ps) = (c = p \<and> starts_with cs ps)"

fun str_includes :: "string \<Rightarrow> string \<Rightarrow> bool" where
  "str_includes [] p = (p = [])"
| "str_includes (c # cs) p = (starts_with (c # cs) p \<or> str_includes cs p)"

definition endsWith :: "string \<Rightarrow> string \<Rightarrow> bool" where
  "endsWith s p = (length p \<le> length s \<and> drop (length s - length p) s = p)"

text \<open>\<^verbatim>\<open>s.split(c)\<close> for a one-character separator: never an empty array.\<close>

fun js_split :: "char \<Rightarrow> string \<Rightarrow> string list" where
  "js_split c [] = [[]]"
| "js_split c (x # xs) =
     (if x = c then [] # js_split c xs
      else (case js_split c xs of [] \<Rightarrow> [[x]] | y # ys \<Rightarrow> (x # y) # ys))"

subsection \<open>Helpers of the relay\<close>

definition resolveContactId :: "string \<Rightarrow> (string \<rightharpoonup> contact) \<Rightarrow> string" where
  "resolveContactId jid store =
     (if str_includes jid ''@lid'' then
        (case store jid of
           None \<Rightarrow> jid
         | Some c \<Rightarrow>
             (case or_null (contact_id c) of
                None \<Rightarrow> jid
              | Some i \<Rightarrow> if \<not> str_includes i ''@lid'' then i else jid))
      else jid)"

definition extractMessageText :: "message option \<Rightarrow> string" where
  "extractMessageText message =
     (case message of
        None \<Rightarrow> []
      | Some m \<Rightarrow>
          or_else (conversation m)
         (or_else (Option.bind (extendedTextMessage m) ext_text)
         (or_else (Option.bind (imageMessage m) caption)
         (or_else (Option.bind (videoMessage m) caption)
         (or_else (Option.bind (documentMessage m) caption) [])))))"

datatype message_type = Text | Media | Voice | Sticker | Reply

definition quoted_of :: "message \<Rightarrow> message option" where
  "quoted_of m =
     Option.bind (Option.bind (extendedTextMessage m) contextInfo) quotedMessage"

definition detectMessageType :: "message option \<Rightarrow> message_type \<times> string option" where
  "detectMessageType message =
     (case message of
        None \<Rightarrow> (Text, None)
      | Some m \<Rightarrow>
          if imageMessage m \<noteq> None then (Media, Some ''image'')
          else if videoMessage m \<noteq> None then (Media, Some ''video'')
          else if audioMessage m \<noteq> None then
            (if ptt (the (audioMessage m)) then (Voice, Some ''ptt'') else (Media, Some ''audio''))
          else if documentMessage m \<noteq> None then (Media, Some ''document'')
          else if stickerMessage m \<noteq> None then (Sticker, Some ''sticker'')
          else if quoted_of m \<noteq> None then (Reply, Some ''text'')
          else (Text, Some ''text''))"

definition is_media_class :: "message_type \<Rightarrow> bool" where
  "is_media_class t = (t = Media \<or> t = Voice \<or> t = Sticker)"

subsection \<open>The normalized record\<close>

record quoted =
  quoted_id :: "string option"
  quoted_body :: string
  quoted_from :: string

record message_metadata =
  timestamp :: nat
  meta_from :: string
  meta_participant :: "string option"
  from_me :: bool
  media_type :: "string option"
  media_url :: "string option"
  media_filename :: "string option"
  quoted_message :: "quoted option"
  voice_duration :: "nat option"

record webhook_record =
  agent_id :: agent
  record_from :: string
  has_media :: bool
  is_group :: bool
  record_from_me :: bool
  message_type :: message_type
  metadata :: message_metadata

subsection \<open>Media download and upload\<close>

text \<open>What the collaborators answer for one message: \<^verbatim>\<open>downloadMediaMessage\<close> throws or
  returns a buffer (\<open>Downloaded False\<close>: a falsy one), the storage \<^verbatim>\<open>fetch\<close> throws or
  answers, and \<open>now\<close> is \<^verbatim>\<open>Date.now()\<close> as printed.\<close>

datatype download_result = DownloadThrows | Downloaded bool

datatype upload_result = UploadThrows | UploadNotOk | UploadOk

record relay_env =
  download :: download_result
  upload :: upload_result
  now :: string

datatype relay_effect =
    DownloadMedia string
  | UploadMedia string string
  | LogError string
  | PostWebhook webhook_record

definition media_mimeType :: "message \<Rightarrow> string" where
  "media_mimeType m =
     or_else (Option.bind (imageMessage m) mimetype)
    (or_else (Option.bind (videoMessage m) mimetype)
    (or_else (Option.bind (audioMessage m) mimetype)
    (or_else (Option.bind (documentMessage m) mimetype)
    (or_else (Option.bind (stickerMessage m) mimetype) ''application/octet-stream''))))"

definition media_extension :: "string \<Rightarrow> string" where
  "media_extension mimeType =
     or_else (case js_split (CHR ''/'') mimeType of
                a # b # rest \<Rightarrow> Some (hd (js_split (CHR '';'') b))
              | _ \<Rightarrow> None) ''bin''"

definition media_fileName :: "relay_env \<Rightarrow> wa_message \<Rightarrow> message \<Rightarrow> string" where
  "media_fileName env msg m =
     ''whatsapp-'' @ key_id msg @ ''-'' @ now env @ ''.'' @ media_extension (media_mimeType m)"

text \<open>Lines 432-475: the result is \<^verbatim>\<open>mediaUrl\<close> with \<^verbatim>\<open>mediaFileName\<close> when the upload
  was accepted, and what was done on the way.\<close>

definition fetch_media ::
  "string \<Rightarrow> relay_env \<Rightarrow> wa_message \<Rightarrow> message \<Rightarrow> string \<Rightarrow>
     (string \<times> string) option \<times> relay_effect list" where
  "fetch_media supabaseUrl env msg m baileysType =
     (case download env of
        DownloadThrows \<Rightarrow>
          (None, [DownloadMedia baileysType, LogError ''Error downloading/uploading media''])
      | Downloaded buffer \<Rightarrow>
          if \<not> buffer then (None, [DownloadMedia baileysType])
          else
            (let mediaFileName = media_fileName env msg m;
                 storageUrl = supabaseUrl @ ''/storage/v1/object/whatsapp-media/'' @ mediaFileName;
                 sent = [DownloadMedia baileysType, UploadMedia storageUrl (media_mimeType m)]
             in case upload env of
                  UploadThrows \<Rightarrow> (None, sent @ [LogError ''Error downloading/uploading media''])
                | UploadNotOk \<Rightarrow> (None, sent @ [LogError ''Failed to upload media''])
                | UploadOk \<Rightarrow>
                    (Some (supabaseUrl @ ''/storage/v1/object/public/whatsapp-media/''
                             @ mediaFileName, mediaFileName), sent)))"

subsection \<open>One message\<close>

record relay_cfg =
  cfg_agent :: agent
  supabaseUrl :: string
  contacts :: "string \<rightharpoonup> contact"

text \<open>Lines 487-496.\<close>

definition reply_metadata :: "message \<Rightarrow> string \<Rightarrow> quoted option" where
  "reply_metadata m jid =
     (case Option.bind (extendedTextMessage m) contextInfo of
        None \<Rightarrow> None
      | Some ctx \<Rightarrow>
          (case quotedMessage ctx of
             None \<Rightarrow> None
           | Some q \<Rightarrow>
               Some \<lparr>quoted_id = or_null (stanzaId ctx),
                     quoted_body = take 100 (extractMessageText (Some q)),
                     quoted_from = or_else (participant ctx) jid\<rparr>))"

text \<open>Lines 429-475: media is fetched for a received message of the media, voice or
  sticker class, and for no other.\<close>

definition media_fetch ::
  "relay_cfg \<Rightarrow> relay_env \<Rightarrow> wa_message \<Rightarrow> message \<Rightarrow>
     (string \<times> string) option \<times> relay_effect list" where
  "media_fetch cfg env msg m =
     (let messageType = fst (detectMessageType (Some m));
          baileysType = snd (detectMessageType (Some m))
      in if is_media_class messageType \<and> \<not> fromMe msg
         then fetch_media (supabaseUrl cfg) env msg m (or_else baileysType [])
         else (None, []))"

text \<open>Lines 419-426 and 477-500: the metadata of the record. \<open>mediaUrl\<close> is the result of
  the fetch, \<open>jid\<close> the \<^verbatim>\<open>remoteJid\<close> of the message.\<close>

definition build_metadata ::
  "relay_cfg \<Rightarrow> wa_message \<Rightarrow> string \<Rightarrow> message \<Rightarrow> (string \<times> string) option \<Rightarrow>
     message_metadata" where
  "build_metadata cfg msg jid m mediaUrl =
     (let messageType = fst (detectMessageType (Some m));
          baileysType = snd (detectMessageType (Some m));
          isGroup = endsWith jid ''@g.us''
      in \<lparr>timestamp = messageTimestamp msg,
          meta_from = resolveContactId jid (contacts cfg),
          meta_participant = (if isGroup then or_null (key_participant msg) else None),
          from_me = fromMe msg,
          media_type = (if is_media_class messageType then baileysType else None),
          media_url = (if is_media_class messageType then map_option fst mediaUrl else None),
          media_filename = (if is_media_class messageType then map_option snd mediaUrl
                            else None),
          quoted_message = (if messageType = Reply then reply_metadata m jid else None),
          voice_duration = (if messageType = Voice
                            then (case Option.bind (audioMessage m) seconds of
                                    None \<Rightarrow> None
                                  | Some n \<Rightarrow> if n = 0 then None else Some n)
                            else None)\<rparr>)"

text \<open>Lines 520-542: the body of the webhook request.\<close>

definition build_record ::
  "relay_cfg \<Rightarrow> wa_message \<Rightarrow> string \<Rightarrow> message \<Rightarrow> (string \<times> string) option \<Rightarrow>
     webhook_record" where
  "build_record cfg msg jid m mediaUrl =
     \<lparr>agent_id = cfg_agent cfg,
      record_from = resolveContactId jid (contacts cfg),
      has_media = is_media_class (fst (detectMessageType (Some m))),
      is_group = endsWith jid ''@g.us'',
      record_from_me = fromMe msg,
      message_type = fst (detectMessageType (Some m)),
      metadata = build_metadata cfg msg jid m mediaUrl\<rparr>"

text \<open>Lines 382-551, the body of the loop for one message: the three early
  \<^verbatim>\<open>continue\<close>s, the media fetch, and the webhook request that always follows.\<close>

definition relay_message :: "relay_cfg \<Rightarrow> relay_env \<Rightarrow> wa_message \<Rightarrow> relay_effect list" where
  "relay_message cfg env msg =
     (case or_null (remoteJid msg) of
        None \<Rightarrow> []
      | Some jid \<Rightarrow>
          if jid = ''status@broadcast'' then []
          else
            (case content msg of
               None \<Rightarrow> []
             | Some m \<Rightarrow>
                 (let fetched = media_fetch cfg env msg m
                  in snd fetched @ [PostWebhook (build_record cfg msg jid m (fst fetched))])))"

text \<open>The handler: only the \<^verbatim>\<open>notify\<close> class is processed, message by message.\<close>

definition messages_upsert ::
  "relay_cfg \<Rightarrow> string \<Rightarrow> (wa_message \<times> relay_env) list \<Rightarrow> relay_effect list" where
  "messages_upsert cfg type msgs =
     (if type \<noteq> ''notify'' then []
      else concat (map (\<lambda>(msg, env). relay_message cfg env msg) msgs))"

section \<open>Observations and example states\<close>

text \<open>The invariant of the reconnect counters: no stored count exceeds the threshold.\<close>

definition counter_bounded :: "server \<Rightarrow> bool" where
  "counter_bounded s = (\<forall>(a, n) \<in> set (reconnectAttempts s). n \<le> MAX_RECONNECT_ATTEMPTS)"

text \<open>The invariant of a promise: at most one call of \<^verbatim>\<open>resolve\<close> or \<^verbatim>\<open>reject\<close>, and
  none while the flag is still down.\<close>

definition settles_once :: "session \<Rightarrow> bool" where
  "settles_once ss = (length (settled ss) \<le> 1 \<and> (qrResolved ss \<or> settled ss = []))"

text \<open>The records that a list of relay actions posts to the webhook.\<close>

fun webhook_records :: "relay_effect list \<Rightarrow> webhook_record list" where
  "webhook_records [] = []"
| "webhook_records (PostWebhook r # es) = r # webhook_records es"
| "webhook_records (e # es) = webhook_records es"

text \<open>Concrete inputs used to exercise the theorems. The logged-out code of the example
  runs is 401 and a close with code 408 stands for any other reason.\<close>

definition acct1_client :: client where
  "acct1_client = \<lparr>sock = 1, user_id = None\<rparr>"

definition timed_out :: "disconnect_error option" where
  "timed_out = Some \<lparr>output_statusCode = Some 408, statusCode = None\<rparr>"

definition logged_out_401 :: "disconnect_error option" where
  "logged_out_401 = Some \<lparr>output_statusCode = Some 401, statusCode = None\<rparr>"

text \<open>Five accounts open and a sixth one waiting for its pairing code to be scanned.\<close>

definition five_open :: server where
  "five_open =
     \<lparr>clients = [(''a1'', \<lparr>sock = 1, user_id = None\<rparr>), (''a2'', \<lparr>sock = 2, user_id = None\<rparr>),
                 (''a3'', \<lparr>sock = 3, user_id = None\<rparr>), (''a4'', \<lparr>sock = 4, user_id = None\<rparr>),
                 (''a5'', \<lparr>sock = 5, user_id = None\<rparr>), (''a6'', \<lparr>sock = 6, user_id = None\<rparr>)],
      qrCodes = [(''a6'', ''qr'')], qrTimeouts = [(''a6'', 180000)],
      clientStates = [(''a1'', Open), (''a2'', Open), (''a3'', Open), (''a4'', Open),
                      (''a5'', Open), (''a6'', Connecting)],
      reconnectAttempts = [], authStore = Map.empty\<rparr>"

text \<open>One account open, with stored credentials.\<close>

definition paired_server :: server where
  "paired_server =
     \<lparr>clients = [(''acct1'', acct1_client)], qrCodes = [], qrTimeouts = [],
      clientStates = [(''acct1'', Open)], reconnectAttempts = [],
      authStore = [''acct1'' \<mapsto> ''blob'']\<rparr>"

text \<open>The service just started on a volume that holds credentials of an earlier run.\<close>

definition stored_server :: server where
  "stored_server = initial_server\<lparr>authStore := [''acct1'' \<mapsto> ''blob'']\<rparr>"

text \<open>The socket that a reconnect makes.\<close>

definition acct1_reconnected :: client where
  "acct1_reconnected = \<lparr>sock = 2, user_id = None\<rparr>"

text \<open>
  A pairing that is never completed: init, a pairing code, the first credentials saved,
  and a close of that socket for another reason than logout. The pairing timer fires while the reconnect is still
  waiting or the new socket has not reported anything, so the registered client is the
  closed socket 1 and its logout reports nothing.
\<close>

definition pairing_expiry_trace :: "event list" where
  "pairing_expiry_trace =
     [PostInit ''acct1'', QrEvent ''acct1'' (Rendered ''qr1''),
      InitSettled ''acct1'' (Resolved acct1_client), CredsUpdate ''acct1'' ''blob'',
      CloseEvent ''acct1'' timed_out,
      QrTimeoutFired ''acct1'']"

text \<open>
  The same, but the reconnect shows its own pairing code before the timer fires. The
  registered client is then the connected socket 2, and its logout comes back as a
  close event with the logged-out code.
\<close>

definition pairing_expiry_connected :: "event list" where
  "pairing_expiry_connected =
     [PostInit ''acct1'', QrEvent ''acct1'' (Rendered ''qr1''),
      InitSettled ''acct1'' (Resolved acct1_client), CredsUpdate ''acct1'' ''blob'',
      CloseEvent ''acct1'' timed_out, ReconnectStarted ''acct1'',
      QrEvent ''acct1'' (Rendered ''qr2''),
      ReconnectSettled ''acct1'' (Resolved acct1_reconnected),
      QrTimeoutFired ''acct1'']"

text \<open>An account is paired and open; and then its connection closes for another reason
  than logout and the reconnect starts.\<close>

definition open_trace :: "event list" where
  "open_trace =
     [PostInit ''acct1'', QrEvent ''acct1'' (Rendered ''qr1''),
      InitSettled ''acct1'' (Resolved acct1_client), CredsUpdate ''acct1'' ''blob'',
      OpenEvent ''acct1'']"

definition reconnecting_trace :: "event list" where
  "reconnecting_trace = open_trace @ [CloseEvent ''acct1'' timed_out, ReconnectStarted ''acct1'']"

definition reconnecting_server :: server where
  "reconnecting_server =
     \<lparr>clients = [(''acct1'', acct1_client)], qrCodes = [], qrTimeouts = [],
      clientStates = [(''acct1'', Close)], reconnectAttempts = [(''acct1'', 1)],
      authStore = [''acct1'' \<mapsto> ''blob'']\<rparr>"

text \<open>An account in the pairing phase: a registered client, a pairing image, the armed
  pairing timer and stored (partial) credentials.\<close>

definition pairing_state :: "conn_state \<Rightarrow> string \<Rightarrow> (agent \<times> nat) list \<Rightarrow> server" where
  "pairing_state st q ra =
     \<lparr>clients = [(''acct1'', acct1_client)], qrCodes = [(''acct1'', q)],
      qrTimeouts = [(''acct1'', 180000)], clientStates = [(''acct1'', st)],
      reconnectAttempts = ra, authStore = [''acct1'' \<mapsto> ''blob'']\<rparr>"

text \<open>The same account once its fifth reconnect attempt has been made.\<close>

definition exhausted_server :: server where
  "exhausted_server = pairing_state Close ''qr2'' [(''acct1'', 5)]"

text \<open>One round of an unsuccessful pairing: the connection closes for a reason other than
  logout, the reconnect starts, shows a new pairing code and so resolves.\<close>

definition reconnect_round :: "event list" where
  "reconnect_round =
     [CloseEvent ''acct1'' timed_out, ReconnectStarted ''acct1'',
      QrEvent ''acct1'' (Rendered ''qr2''), ReconnectSettled ''acct1'' (Resolved acct1_client)]"

text \<open>An init whose pairing code is never scanned, followed by five such rounds.\<close>

definition exhaustion_trace :: "event list" where
  "exhaustion_trace =
     [PostInit ''acct1'', QrEvent ''acct1'' (Rendered ''qr1''),
      InitSettled ''acct1'' (Resolved acct1_client), CredsUpdate ''acct1'' ''blob'']
     @ reconnect_round @ reconnect_round @ reconnect_round @ reconnect_round @ reconnect_round"

text \<open>Updates that carry one field each.\<close>

definition qr_update :: "string \<Rightarrow> update" where
  "qr_update img = \<lparr>qr = Some (Rendered img), connection = None, lastDisconnect = None\<rparr>"

definition open_update :: update where
  "open_update = \<lparr>qr = None, connection = Some ConnOpen, lastDisconnect = None\<rparr>"

definition close_update :: "disconnect_error option \<Rightarrow> update" where
  "close_update e = \<lparr>qr = None, connection = Some ConnClose, lastDisconnect = e\<rparr>"

text \<open>A message that gets past the three early \<^verbatim>\<open>continue\<close>s of the relay loop.\<close>

definition is_relayed :: "wa_message \<Rightarrow> bool" where
  "is_relayed msg =
     (case or_null (remoteJid msg) of
        None \<Rightarrow> False
      | Some jid \<Rightarrow> jid \<noteq> ''status@broadcast'' \<and> content msg \<noteq> None)"

text \<open>The download threw, or the upload threw or was refused.\<close>

definition fetch_failed :: "relay_env \<Rightarrow> bool" where
  "fetch_failed env =
     (download env = DownloadThrows
      \<or> (download env = Downloaded True \<and> (upload env = UploadThrows \<or> upload env = UploadNotOk)))"

definition no_media :: media_content where
  "no_media = \<lparr>caption = None, mimetype = None, ptt = False, seconds = None\<rparr>"

text \<open>A received picture, and a received reply that quotes a text of 120 characters.\<close>

definition image_msg :: wa_message where
  "image_msg =
     \<lparr>fromMe = False, remoteJid = Some ''5491100000000@s.whatsapp.net'', key_participant = None,
      key_id = ''ABC'',
      content = Some (Message None None
                  (Some (no_media\<lparr>caption := Some ''hi'', mimetype := Some ''image/jpeg''\<rparr>))
                  None None None None),
      pushName = None, messageTimestamp = 1700000000\<rparr>"

definition quoted_text :: message where
  "quoted_text = Message (Some (replicate 120 (CHR ''x''))) None None None None None None"

definition reply_content :: message where
  "reply_content =
     Message None
       (Some (ExtendedText (Some ''ok'') (Some (ContextInfo (Some ''Q1'') None (Some quoted_text)))))
       None None None None None"

definition reply_msg :: wa_message where
  "reply_msg =
     \<lparr>fromMe = False, remoteJid = Some ''5491100000000@s.whatsapp.net'', key_participant = None,
      key_id = ''DEF'', content = Some reply_content,
      pushName = None, messageTimestamp = 1700000001\<rparr>"

definition relay_cfg0 :: relay_cfg where
  "relay_cfg0 = \<lparr>cfg_agent = ''acct1'', supabaseUrl = ''https://example.supabase.co'',
                  contacts = Map.empty\<rparr>"

definition env_ok :: relay_env where
  "env_ok = \<lparr>download = Downloaded True, upload = UploadOk, now = ''1700000000000''\<rparr>"

definition env_refused :: relay_env where
  "env_refused = \<lparr>download = Downloaded True, upload = UploadNotOk, now = ''1700000000000''\<rparr>"

definition reply_record :: webhook_record where
  "reply_record =
     build_record relay_cfg0 reply_msg ''5491100000000@s.whatsapp.net'' reply_content None"

section \<open>Basic facts\<close>

subsection \<open>Association lists\<close>

lemma delete_absent: "map_of al k = None \<Longrightarrow> AList.delete k al = al"
  by (simp add: map_of_eq_None_iff)

lemma map_of_delete_same: "map_of (AList.delete k al) k = None"
  by (simp add: AList.delete_conv')

lemma set_delete_subset: "set (AList.delete k al) \<subseteq> set al"
  by (auto simp: AList.delete_eq)

lemma set_update_subset: "set (AList.update k v al) \<subseteq> insert (k, v) (set al)"
  by (induction al) auto

lemma bounded_delete:
  "\<forall>(a, n) \<in> set al. n \<le> (b::nat) \<Longrightarrow> \<forall>(a, n) \<in> set (AList.delete k al). n \<le> b"
  using set_delete_subset[of k al] by blast

lemma bounded_update:
  "\<forall>(a, n) \<in> set al. n \<le> (b::nat) \<Longrightarrow> v \<le> b \<Longrightarrow>
   \<forall>(a, n) \<in> set (AList.update k v al). n \<le> b"
  using set_update_subset[of k v al] by blast

subsection \<open>The handlers as record updates\<close>

lemma clearQrTimeout_eq:
  "clearQrTimeout a s = s\<lparr>qrTimeouts := AList.delete a (qrTimeouts s)\<rparr>"
  by (simp add: clearQrTimeout_def delete_absent split: option.split)

lemma destroyClient_eq:
  "destroyClient a s =
     s\<lparr>clients := AList.delete a (clients s),
       qrCodes := AList.delete a (qrCodes s),
       qrTimeouts := AList.delete a (qrTimeouts s),
       clientStates := AList.delete a (clientStates s),
       authStore := (authStore s)(a := None)\<rparr>"
  by (simp add: destroyClient_def clearQrTimeout_eq Let_def fun_upd_idem split: option.split)

lemma destroyClient_idem: "destroyClient a (destroyClient a s) = destroyClient a s"
  by (simp add: destroyClient_eq AList.delete_idem)

lemma destroyClient_absent:
  "map_of (clients s) a = None \<Longrightarrow> map_of (qrCodes s) a = None \<Longrightarrow>
   map_of (qrTimeouts s) a = None \<Longrightarrow> map_of (clientStates s) a = None \<Longrightarrow>
   authStore s a = None \<Longrightarrow> destroyClient a s = s"
  by (simp add: destroyClient_eq delete_absent fun_upd_idem)

lemma destroyClient_counter: "reconnectAttempts (destroyClient a s) = reconnectAttempts s"
  by (simp add: destroyClient_eq)

lemma initializeClient_begin_eq:
  "initializeClient_begin a r s =
     (if \<not> r \<and> map_of (clients s) a = None then s\<lparr>authStore := (authStore s)(a := None)\<rparr>
      else s)"
  by (simp add: initializeClient_begin_def fun_upd_idem split: option.split)

lemma qr_effect_eq:
  "qr_effect a (Rendered img) s =
     s\<lparr>qrCodes := AList.update a img (qrCodes s),
       qrTimeouts := AList.update a QR_TIMEOUT_MS (AList.delete a (qrTimeouts s))\<rparr>"
  by (simp add: qr_effect_def clearQrTimeout_eq)

lemma open_effect_eq:
  "open_effect a s =
     s\<lparr>qrTimeouts := AList.delete a (qrTimeouts s),
       clientStates := AList.update a Open (clientStates s),
       reconnectAttempts := AList.delete a (reconnectAttempts s),
       qrCodes := AList.delete a (qrCodes s)\<rparr>"
  by (simp add: open_effect_def clearQrTimeout_eq)

lemma close_effect_reconnect:
  "shouldReconnect lo e \<Longrightarrow>
   (case map_of (reconnectAttempts s) a of None \<Rightarrow> 0 | Some n \<Rightarrow> n) + 1 = k \<Longrightarrow>
   k \<le> MAX_RECONNECT_ATTEMPTS \<Longrightarrow>
   close_effect lo a e s =
     (s\<lparr>clientStates := AList.update a Close (clientStates s),
        reconnectAttempts := AList.update a k (reconnectAttempts s)\<rparr>,
      Reconnect k (reconnect_delay k))"
  by (auto simp: close_effect_def Let_def)

lemma close_effect_gave_up:
  "shouldReconnect lo e \<Longrightarrow>
   \<not> (case map_of (reconnectAttempts s) a of None \<Rightarrow> 0 | Some n \<Rightarrow> n) + 1
       \<le> MAX_RECONNECT_ATTEMPTS \<Longrightarrow>
   close_effect lo a e s =
     (s\<lparr>reconnectAttempts := AList.delete a (reconnectAttempts s),
        clients := AList.delete a (clients s),
        qrCodes := AList.delete a (qrCodes s),
        clientStates := AList.delete a (clientStates s)\<rparr>, GaveUp)"
  by (simp add: close_effect_def Let_def AList.delete_update_same)

lemma close_effect_logged_out:
  "\<not> shouldReconnect lo e \<Longrightarrow>
   close_effect lo a e s =
     (s\<lparr>qrTimeouts := AList.delete a (qrTimeouts s),
        clients := AList.delete a (clients s),
        qrCodes := AList.delete a (qrCodes s),
        clientStates := AList.delete a (clientStates s),
        reconnectAttempts := AList.delete a (reconnectAttempts s),
        authStore := (authStore s)(a := None)\<rparr>, LoggedOut)"
  by (simp add: close_effect_def Let_def clearQrTimeout_eq AList.delete_update_same fun_upd_idem
      split: option.split)

subsection \<open>Runs\<close>

lemma run_Nil: "run lo [] s = s"
  by (simp add: run_def)

lemma run_Cons: "run lo (ev # evs) s = run lo evs (step lo ev s)"
  by (simp add: run_def)

lemma timed_out_recoverable: "shouldReconnect 401 timed_out"
  by (simp add: shouldReconnect_def close_statusCode_def timed_out_def)

lemma pairing_pending_state:
  "run 401 [PostInit ''acct1'', QrEvent ''acct1'' (Rendered ''qr1''),
      InitSettled ''acct1'' (Resolved acct1_client), CredsUpdate ''acct1'' ''blob'',
      CloseEvent ''acct1'' timed_out]
     initial_server =
   \<lparr>clients = [(''acct1'', acct1_client)], qrCodes = [(''acct1'', ''qr1'')],
    qrTimeouts = [(''acct1'', 180000)], clientStates = [(''acct1'', Close)],
    reconnectAttempts = [(''acct1'', 1)], authStore = [''acct1'' \<mapsto> ''blob'']\<rparr>"
  by (simp add: run_Cons run_Nil post_init_begin_def post_init_end_def
      countConnectedClients_def MAX_CONCURRENT_SESSIONS_def initializeClient_begin_eq
      qr_effect_eq creds_update_def close_effect_reconnect[OF timed_out_recoverable, where k = 1]
      QR_TIMEOUT_MS_def MAX_RECONNECT_ATTEMPTS_def initial_server_def Let_def)

lemma pairing_expiry_state:
  "run 401 pairing_expiry_trace initial_server =
     initial_server\<lparr>reconnectAttempts := [(''acct1'', 1)]\<rparr>"
proof -
  have "run 401 pairing_expiry_trace initial_server
      = run 401 [QrTimeoutFired ''acct1'']
          (run 401 [PostInit ''acct1'', QrEvent ''acct1'' (Rendered ''qr1''),
             InitSettled ''acct1'' (Resolved acct1_client), CredsUpdate ''acct1'' ''blob'',
      CloseEvent ''acct1'' timed_out]
             initial_server)"
    by (simp add: pairing_expiry_trace_def run_def)
  then show ?thesis
    unfolding pairing_pending_state
    by (simp add: run_Cons run_Nil qr_timeout_fired_def destroyClient_eq initial_server_def)
qed

lemma pairing_connected_state:
  "run 401 [PostInit ''acct1'', QrEvent ''acct1'' (Rendered ''qr1''),
      InitSettled ''acct1'' (Resolved acct1_client), CredsUpdate ''acct1'' ''blob'',
      CloseEvent ''acct1'' timed_out, ReconnectStarted ''acct1'',
      QrEvent ''acct1'' (Rendered ''qr2''),
      ReconnectSettled ''acct1'' (Resolved acct1_reconnected)] initial_server =
   \<lparr>clients = [(''acct1'', acct1_reconnected)], qrCodes = [(''acct1'', ''qr2'')],
    qrTimeouts = [(''acct1'', 180000)], clientStates = [(''acct1'', Close)],
    reconnectAttempts = [(''acct1'', 1)], authStore = [''acct1'' \<mapsto> ''blob'']\<rparr>"
  by (simp add: run_Cons run_Nil post_init_begin_def post_init_end_def
      countConnectedClients_def MAX_CONCURRENT_SESSIONS_def initializeClient_begin_eq
      qr_effect_eq creds_update_def close_effect_reconnect[OF timed_out_recoverable, where k = 1]
      reconnect_settled_def QR_TIMEOUT_MS_def MAX_RECONNECT_ATTEMPTS_def initial_server_def
      Let_def)

lemma logged_out_not_recoverable: "\<not> shouldReconnect 401 logged_out_401"
  by (simp add: shouldReconnect_def close_statusCode_def logged_out_401_def)

text \<open>When the pairing timer fires on a connected socket, the logout comes back as a
  close with the logged-out code, and the logout branch removes the counter.\<close>

lemma pairing_expiry_connected_clean:
  "destroyClient_calls ''acct1'' False
     (run 401 (butlast pairing_expiry_connected) initial_server) = [Logout 2]"
  "logout_event 401 {1} ''acct1'' 2 = [CloseEvent ''acct1'' logged_out_401]"
  "run 401 (pairing_expiry_connected @ logout_event 401 {1} ''acct1'' 2) initial_server
     = initial_server"
proof -
  have b: "butlast pairing_expiry_connected =
     [PostInit ''acct1'', QrEvent ''acct1'' (Rendered ''qr1''),
      InitSettled ''acct1'' (Resolved acct1_client), CredsUpdate ''acct1'' ''blob'',
      CloseEvent ''acct1'' timed_out, ReconnectStarted ''acct1'',
      QrEvent ''acct1'' (Rendered ''qr2''),
      ReconnectSettled ''acct1'' (Resolved acct1_reconnected)]"
    by (simp add: pairing_expiry_connected_def)
  show "destroyClient_calls ''acct1'' False
     (run 401 (butlast pairing_expiry_connected) initial_server) = [Logout 2]"
    unfolding b pairing_connected_state
    by (simp add: destroyClient_calls_def acct1_reconnected_def)
  show e: "logout_event 401 {1} ''acct1'' 2 = [CloseEvent ''acct1'' logged_out_401]"
    by (simp add: logout_event_def logged_out_401_def)
  have "run 401 (pairing_expiry_connected @ logout_event 401 {1} ''acct1'' 2) initial_server
      = run 401 [QrTimeoutFired ''acct1'', CloseEvent ''acct1'' logged_out_401]
          (run 401 (butlast pairing_expiry_connected) initial_server)"
    unfolding e b by (simp add: pairing_expiry_connected_def run_def)
  then show "run 401 (pairing_expiry_connected @ logout_event 401 {1} ''acct1'' 2)
      initial_server = initial_server"
    unfolding b pairing_connected_state
    by (simp add: run_Cons run_Nil qr_timeout_fired_def destroyClient_eq
        close_effect_logged_out[OF logged_out_not_recoverable] initial_server_def)
qed

lemma run_append: "run lo (xs @ ys) s = run lo ys (run lo xs s)"
  by (simp add: run_def)

lemma exhaustion_init:
  "run 401 [PostInit ''acct1'', QrEvent ''acct1'' (Rendered ''qr1''),
      InitSettled ''acct1'' (Resolved acct1_client), CredsUpdate ''acct1'' ''blob''] initial_server
   = pairing_state Connecting ''qr1'' []"
  by (simp add: run_Cons run_Nil post_init_begin_def post_init_end_def countConnectedClients_def
      MAX_CONCURRENT_SESSIONS_def initializeClient_begin_eq qr_effect_eq creds_update_def
      QR_TIMEOUT_MS_def initial_server_def pairing_state_def Let_def)

lemma reconnect_round_first:
  "run 401 reconnect_round (pairing_state st q []) = pairing_state Close ''qr2'' [(''acct1'', 1)]"
  by (simp add: reconnect_round_def run_Cons run_Nil pairing_state_def
      close_effect_reconnect[OF timed_out_recoverable, where k = 1] MAX_RECONNECT_ATTEMPTS_def
      initializeClient_begin_eq qr_effect_eq reconnect_settled_def QR_TIMEOUT_MS_def)

lemma reconnect_round_next:
  "k < 5 \<Longrightarrow>
   run 401 reconnect_round (pairing_state st q [(''acct1'', k)])
     = pairing_state Close ''qr2'' [(''acct1'', Suc k)]"
  by (simp add: reconnect_round_def run_Cons run_Nil pairing_state_def
      close_effect_reconnect[OF timed_out_recoverable, where k = "Suc k"]
      MAX_RECONNECT_ATTEMPTS_def
      initializeClient_begin_eq qr_effect_eq reconnect_settled_def QR_TIMEOUT_MS_def)

lemma exhaustion_state: "run 401 exhaustion_trace initial_server = exhausted_server"
proof -
  have "run 401 exhaustion_trace initial_server
      = run 401 reconnect_round (run 401 reconnect_round (run 401 reconnect_round
          (run 401 reconnect_round (run 401 reconnect_round
             (pairing_state Connecting ''qr1'' [])))))"
    unfolding exhaustion_trace_def run_append exhaustion_init ..
  also have "\<dots> = pairing_state Close ''qr2'' [(''acct1'', Suc (Suc (Suc (Suc 1))))]"
    by (simp only: reconnect_round_first) (simp add: reconnect_round_next)
  finally show ?thesis
    by (simp add: exhausted_server_def eval_nat_numeral)
qed

lemma exhausted_gives_up:
  "close_effect 401 ''acct1'' timed_out exhausted_server =
     (exhausted_server\<lparr>reconnectAttempts := [], clients := [], qrCodes := [],
        clientStates := []\<rparr>, GaveUp)"
proof -
  have "\<not> (case map_of (reconnectAttempts exhausted_server) ''acct1'' of
               None \<Rightarrow> 0 | Some n \<Rightarrow> n) + 1 \<le> MAX_RECONNECT_ATTEMPTS"
    by (simp add: exhausted_server_def pairing_state_def MAX_RECONNECT_ATTEMPTS_def)
  from close_effect_gave_up[OF timed_out_recoverable this] show ?thesis
    by (simp add: exhausted_server_def pairing_state_def)
qed

lemma open_trace_state: "run 401 open_trace initial_server = paired_server"
  by (simp add: open_trace_def run_Cons run_Nil post_init_begin_def post_init_end_def
      countConnectedClients_def MAX_CONCURRENT_SESSIONS_def initializeClient_begin_eq
      qr_effect_eq creds_update_def open_effect_eq QR_TIMEOUT_MS_def initial_server_def
      paired_server_def Let_def)

lemma reconnecting_state: "run 401 reconnecting_trace initial_server = reconnecting_server"
proof -
  have "run 401 reconnecting_trace initial_server
      = run 401 [CloseEvent ''acct1'' timed_out, ReconnectStarted ''acct1''] paired_server"
    by (simp add: reconnecting_trace_def run_append open_trace_state)
  then show ?thesis
    by (simp add: run_Cons run_Nil paired_server_def reconnecting_server_def
        close_effect_reconnect[OF timed_out_recoverable, where k = 1] MAX_RECONNECT_ATTEMPTS_def
        initializeClient_begin_eq)
qed

text \<open>On the reconnect path the stored state is set to \<open>Close\<close> and not touched again.\<close>

lemma reconnect_keeps_state:
  assumes "shouldReconnect lo e"
    and "(case map_of (reconnectAttempts s) a of None \<Rightarrow> 0 | Some j \<Rightarrow> j) + 1
           \<le> MAX_RECONNECT_ATTEMPTS"
  shows "map_of (clientStates (fst (close_effect lo a e s))) a = Some Close"
    and "clientStates (initializeClient_begin a True s') = clientStates s'"
    and "clientStates (reconnect_settled a (Resolved c) s') = clientStates s'"
  using assms
  by (simp_all add: close_effect_reconnect[OF assms(1) refl assms(2)] AList.update_conv'
      initializeClient_begin_eq reconnect_settled_def)

subsection \<open>The reconnect counter along a run\<close>

lemma close_effect_counter:
  "reconnectAttempts (fst (close_effect lo a e s)) =
     (if shouldReconnect lo e then
        (let attempts = (case map_of (reconnectAttempts s) a of None \<Rightarrow> 0 | Some n \<Rightarrow> n) + 1
         in if attempts \<le> MAX_RECONNECT_ATTEMPTS
            then AList.update a attempts (reconnectAttempts s)
            else AList.delete a (reconnectAttempts s))
      else AList.delete a (reconnectAttempts s))"
proof (cases "shouldReconnect lo e")
  case True
  show ?thesis
  proof (cases "(case map_of (reconnectAttempts s) a of None \<Rightarrow> 0 | Some n \<Rightarrow> n) + 1
                  \<le> MAX_RECONNECT_ATTEMPTS")
    case le: True
    show ?thesis
      using True le by (simp add: close_effect_reconnect[OF True refl le] Let_def)
  next
    case gt: False
    show ?thesis
      using True gt by (simp add: close_effect_gave_up[OF True gt] Let_def)
  qed
next
  case False
  then show ?thesis by (simp add: close_effect_logged_out[OF False])
qed

lemma close_effect_bounded:
  assumes "counter_bounded s"
  shows "counter_bounded (fst (close_effect lo a e s))"
proof -
  let ?k = "(case map_of (reconnectAttempts s) a of None \<Rightarrow> 0 | Some n \<Rightarrow> n) + 1"
  from assms have b: "\<forall>(a, n) \<in> set (reconnectAttempts s). n \<le> MAX_RECONNECT_ATTEMPTS"
    by (simp add: counter_bounded_def)
  show ?thesis
  proof (cases "shouldReconnect lo e \<and> ?k \<le> MAX_RECONNECT_ATTEMPTS")
    case True
    then have "reconnectAttempts (fst (close_effect lo a e s))
                 = AList.update a ?k (reconnectAttempts s)"
      by (simp add: close_effect_counter Let_def)
    with bounded_update[OF b, of ?k a] True show ?thesis
      by (simp add: counter_bounded_def)
  next
    case False
    then have "reconnectAttempts (fst (close_effect lo a e s))
                 = AList.delete a (reconnectAttempts s)"
      by (auto simp: close_effect_counter Let_def)
    with bounded_delete[OF b, of a] show ?thesis
      by (simp add: counter_bounded_def)
  qed
qed

lemma cleanup_client_counter: "reconnectAttempts (cleanup_client a s) = reconnectAttempts s"
  by (simp add: cleanup_client_def destroyClient_counter Let_def)

lemma fold_cleanup_counter: "reconnectAttempts (fold cleanup_client as s) = reconnectAttempts s"
  by (induction as arbitrary: s) (simp_all add: cleanup_client_counter)

lemma post_init_begin_counter:
  "reconnectAttempts (case post_init_begin a s of Inl r \<Rightarrow> s | Inr s' \<Rightarrow> s')
     = reconnectAttempts s"
  by (simp add: post_init_begin_def Let_def initializeClient_begin_eq destroyClient_counter)

lemma post_init_end_counter:
  "reconnectAttempts (fst (post_init_end a r s)) = reconnectAttempts s"
  by (cases r) (simp_all add: post_init_end_def Let_def destroyClient_counter)

lemma step_counter:
  "reconnectAttempts (step lo ev s) =
     (case ev of
        OpenEvent a \<Rightarrow> AList.delete a (reconnectAttempts s)
      | CloseEvent a e \<Rightarrow> reconnectAttempts (fst (close_effect lo a e s))
      | _ \<Rightarrow> reconnectAttempts s)"
proof (cases ev)
  case (PostInit a)
  then show ?thesis by (simp add: post_init_begin_counter)
next
  case (InitSettled a r)
  then show ?thesis by (simp add: post_init_end_counter)
next
  case (PostDisconnect a)
  then show ?thesis by (simp add: post_disconnect_def destroyClient_counter)
next
  case (QrEvent a r)
  then show ?thesis by (cases r) (simp_all add: qr_effect_def clearQrTimeout_eq Let_def)
next
  case (OpenEvent a)
  then show ?thesis by (simp add: open_effect_eq)
next
  case (CloseEvent a e)
  then show ?thesis by simp
next
  case (ReconnectStarted a)
  then show ?thesis by (simp add: initializeClient_begin_eq)
next
  case (ReconnectSettled a r)
  then show ?thesis by (cases r) (simp_all add: reconnect_settled_def)
next
  case (QrTimeoutFired a)
  then show ?thesis
    by (simp add: qr_timeout_fired_def destroyClient_counter split: option.split)
next
  case (CredsUpdate a c)
  then show ?thesis by (simp add: creds_update_def)
next
  case Cleanup
  then show ?thesis by (simp add: cleanup_def fold_cleanup_counter)
qed

lemma step_bounded:
  assumes "counter_bounded s"
  shows "counter_bounded (step lo ev s)"
proof (cases ev)
  case (OpenEvent a)
  with assms show ?thesis
    by (simp add: counter_bounded_def step_counter bounded_delete del: step.simps)
next
  case (CloseEvent a e)
  with assms show ?thesis by (simp add: close_effect_bounded)
qed (use assms in \<open>simp_all add: counter_bounded_def step_counter del: step.simps\<close>)

lemma run_bounded: "counter_bounded s \<Longrightarrow> counter_bounded (run lo evs s)"
  unfolding run_def by (induction evs arbitrary: s) (simp_all add: step_bounded)

lemma counter_boundedD:
  "counter_bounded s \<Longrightarrow> map_of (reconnectAttempts s) a = Some n \<Longrightarrow>
   n \<le> MAX_RECONNECT_ATTEMPTS"
  by (auto simp: counter_bounded_def dest: map_of_SomeD)

subsection \<open>Counting open clients\<close>

lemma count_excludes:
  "\<not> (map_of (clients s) a \<noteq> None \<and> map_of (clientStates s) a = Some Open) \<Longrightarrow>
   countConnectedClients s =
     length (filter (\<lambda>(k, c). k \<noteq> a \<and> map_of (clientStates s) k = Some Open) (clients s))"
  unfolding countConnectedClients_def
  apply (rule arg_cong[where f = length])
  apply (rule filter_cong[OF refl])
  apply (auto simp: map_of_eq_None_iff image_iff)
  done

subsection \<open>The promise of one session\<close>

lemma settle_once_keeps: "settles_once ss \<Longrightarrow> settles_once (settle_once r ss)"
  by (auto simp: settles_once_def settle_once_def)

lemma settle_once_done: "qrResolved ss \<Longrightarrow> settle_once r ss = ss"
  by (simp add: settle_once_def)

lemma update_settle_keeps: "settles_once ss \<Longrightarrow> settles_once (update_settle u ss)"
  by (simp add: update_settle_def qr_settle_def open_settle_def close_settle_def Let_def
      settle_once_keeps split: option.split qr_render.split)

lemma update_settle_done: "qrResolved ss \<Longrightarrow> update_settle u ss = ss"
  by (simp add: update_settle_def qr_settle_def open_settle_def close_settle_def Let_def
      settle_once_done split: option.split qr_render.split)

lemma deliver_keeps: "settles_once ss \<Longrightarrow> settles_once (deliver us ss)"
  unfolding deliver_def by (induction us arbitrary: ss) (simp_all add: update_settle_keeps)

lemma new_session_settles_once: "settles_once (new_session a c)"
  by (simp add: settles_once_def new_session_def)

subsection \<open>Pairing\<close>

text \<open>The first pairing code of a fresh init is answered with the image and 180 seconds,
  provided the image is not the empty string, and the timer is armed with 180000 ms.\<close>

lemma pairing_response:
  assumes "img \<noteq> []"
  shows "snd (post_init_end a (Resolved c) (qr_effect a (Rendered img) s)) = QrResponse img a 180"
    and "map_of (qrTimeouts (fst (post_init_end a (Resolved c) (qr_effect a (Rendered img) s)))) a
           = Some 180000"
  using assms
  by (simp_all add: post_init_end_def qr_effect_eq Let_def AList.update_conv' QR_TIMEOUT_MS_def)

text \<open>When the pairing timer fires, the client, QR image, timer and state of the account
  and its stored credentials are gone; the reconnect counter is what it was.\<close>

lemma qr_timeout_teardown:
  assumes "map_of (qrTimeouts s) a = Some t"
  shows "map_of (clients (qr_timeout_fired a s)) a = None"
    and "map_of (qrCodes (qr_timeout_fired a s)) a = None"
    and "map_of (qrTimeouts (qr_timeout_fired a s)) a = None"
    and "map_of (clientStates (qr_timeout_fired a s)) a = None"
    and "authStore (qr_timeout_fired a s) a = None"
    and "reconnectAttempts (qr_timeout_fired a s) = reconnectAttempts s"
  using assms by (simp_all add: qr_timeout_fired_def destroyClient_eq map_of_delete_same)

subsection \<open>The relay of one message\<close>

lemma webhook_records_append:
  "webhook_records (xs @ ys) = webhook_records xs @ webhook_records ys"
  by (induction xs rule: webhook_records.induct) simp_all

lemma fetch_media_no_webhook: "webhook_records (snd (fetch_media u env msg m t)) = []"
  by (simp add: fetch_media_def Let_def split: download_result.split upload_result.split)

lemma media_fetch_no_webhook: "webhook_records (snd (media_fetch cfg env msg m)) = []"
  by (simp add: media_fetch_def Let_def fetch_media_no_webhook)

lemma relay_message_relayed:
  "or_null (remoteJid msg) = Some jid \<Longrightarrow> jid \<noteq> ''status@broadcast'' \<Longrightarrow>
   content msg = Some m \<Longrightarrow>
   relay_message cfg env msg =
     snd (media_fetch cfg env msg m)
       @ [PostWebhook (build_record cfg msg jid m (fst (media_fetch cfg env msg m)))]"
  by (simp add: relay_message_def Let_def)

lemma relay_message_skipped: "\<not> is_relayed msg \<Longrightarrow> relay_message cfg env msg = []"
  by (auto simp: relay_message_def is_relayed_def split: option.splits)

lemma is_relayedD:
  "is_relayed msg \<Longrightarrow>
   \<exists>jid m. or_null (remoteJid msg) = Some jid \<and> jid \<noteq> ''status@broadcast'' \<and> content msg = Some m"
  by (auto simp: is_relayed_def split: option.splits)

lemma relay_message_records:
  "or_null (remoteJid msg) = Some jid \<Longrightarrow> jid \<noteq> ''status@broadcast'' \<Longrightarrow>
   content msg = Some m \<Longrightarrow>
   webhook_records (relay_message cfg env msg)
     = [build_record cfg msg jid m (fst (media_fetch cfg env msg m))]"
  by (simp add: relay_message_relayed webhook_records_append media_fetch_no_webhook)

lemma detect_media_subtype:
  "is_media_class (fst (detectMessageType (Some m))) \<Longrightarrow>
   \<exists>t. snd (detectMessageType (Some m)) = Some t \<and> t \<noteq> []"
  by (auto simp: detectMessageType_def is_media_class_def split: if_splits)

lemma fetch_media_ok:
  "download env = Downloaded True \<Longrightarrow> upload env = UploadOk \<Longrightarrow>
   fst (fetch_media u env msg m t)
     = Some (u @ ''/storage/v1/object/public/whatsapp-media/'' @ media_fileName env msg m,
             media_fileName env msg m)"
  by (simp add: fetch_media_def Let_def)

lemma fetch_media_failed:
  "fetch_failed env \<Longrightarrow>
   fst (fetch_media u env msg m t) = None \<and> (\<exists>l. LogError l \<in> set (snd (fetch_media u env msg m t)))"
  by (auto simp: fetch_failed_def fetch_media_def Let_def)

lemma media_fetch_effects:
  "e \<in> set (snd (media_fetch cfg env msg m)) \<Longrightarrow>
   \<not> fromMe msg \<and> is_media_class (fst (detectMessageType (Some m)))"
  by (auto simp: media_fetch_def Let_def split: if_splits)

lemma relay_message_fetches:
  assumes "DownloadMedia t \<in> set (relay_message cfg env msg)
           \<or> UploadMedia u ct \<in> set (relay_message cfg env msg)"
  shows "\<not> fromMe msg \<and> (\<exists>m. content msg = Some m \<and> is_media_class (fst (detectMessageType (Some m))))"
proof (cases "is_relayed msg")
  case False
  with assms show ?thesis by (simp add: relay_message_skipped)
next
  case True
  then obtain jid m where j: "or_null (remoteJid msg) = Some jid" "jid \<noteq> ''status@broadcast''"
      "content msg = Some m"
    using is_relayedD by blast
  from assms have "DownloadMedia t \<in> set (snd (media_fetch cfg env msg m))
      \<or> UploadMedia u ct \<in> set (snd (media_fetch cfg env msg m))"
    by (simp add: relay_message_relayed[OF j])
  then have "\<not> fromMe msg \<and> is_media_class (fst (detectMessageType (Some m)))"
    using media_fetch_effects by blast
  with j show ?thesis by simp
qed

lemma record_media_url:
  "media_url (metadata (build_record cfg msg jid m mu))
     = (if is_media_class (fst (detectMessageType (Some m))) then map_option fst mu else None)"
  by (simp add: build_record_def build_metadata_def Let_def)

lemma record_media_type:
  "media_type (metadata (build_record cfg msg jid m mu))
     = (if is_media_class (fst (detectMessageType (Some m))) then snd (detectMessageType (Some m))
        else None)"
  by (simp add: build_record_def build_metadata_def Let_def)

lemma record_media_filename:
  "media_filename (metadata (build_record cfg msg jid m mu))
     = (if is_media_class (fst (detectMessageType (Some m))) then map_option snd mu else None)"
  by (simp add: build_record_def build_metadata_def Let_def)

lemma image_msg_facts:
  "is_relayed image_msg" "\<not> fromMe image_msg"
  "is_media_class (fst (detectMessageType (content image_msg)))"
  "snd (detectMessageType (content image_msg)) = Some ''image''"
  by (simp_all add: image_msg_def is_relayed_def or_null_def detectMessageType_def
      is_media_class_def)

lemma detect_reply:
  "fst (detectMessageType (Some m)) = Reply \<Longrightarrow> quoted_of m \<noteq> None"
  by (auto simp: detectMessageType_def split: if_splits)

lemma quoted_ofD:
  "quoted_of m \<noteq> None \<Longrightarrow>
   \<exists>ctx q. Option.bind (extendedTextMessage m) contextInfo = Some ctx \<and> quotedMessage ctx = Some q"
  by (cases "Option.bind (extendedTextMessage m) contextInfo") (auto simp: quoted_of_def)

lemma record_quoted:
  "quoted_message (metadata (build_record cfg msg jid m mu))
     = (if fst (detectMessageType (Some m)) = Reply then reply_metadata m jid else None)"
  by (simp add: build_record_def build_metadata_def Let_def)

lemma record_message_type:
  "message_type (build_record cfg msg jid m mu) = fst (detectMessageType (Some m))"
  by (simp add: build_record_def)

section \<open>Claims\<close>

subsection \<open>Admission control\<close>

text \<open>
  Claim C1. With \<^verbatim>\<open>MAX_CONCURRENT_SESSIONS = 5\<close>: when the number of registered clients
  whose state is open has reached the limit, an init request for an account without a
  client record is answered with the capacity error and the state is left as it was.
  When the count is below the limit no init request gets the capacity error, and one for
  an account without a record goes on to create its transport. An account that owns a
  record is never refused for capacity: if it is not open it is torn down and started
  again, and the count that was consulted did not include it.
\<close>

theorem init_admission:
  assumes "a \<noteq> []"
  shows "MAX_CONCURRENT_SESSIONS = 5
    \<and> (MAX_CONCURRENT_SESSIONS \<le> countConnectedClients s \<and> map_of (clients s) a = None \<longrightarrow>
          post_init_begin a s
            = Inl (CapacityError (countConnectedClients s) MAX_CONCURRENT_SESSIONS)
          \<and> step lo (PostInit a) s = s)
    \<and> (countConnectedClients s < MAX_CONCURRENT_SESSIONS \<longrightarrow>
          (\<forall>n m. post_init_begin a s \<noteq> Inl (CapacityError n m)))
    \<and> (countConnectedClients s < MAX_CONCURRENT_SESSIONS \<and> map_of (clients s) a = None \<longrightarrow>
          post_init_begin a s = Inr (initializeClient_begin a False s))
    \<and> (map_of (clients s) a \<noteq> None \<longrightarrow>
          (\<forall>n m. post_init_begin a s \<noteq> Inl (CapacityError n m)))
    \<and> (map_of (clients s) a \<noteq> None \<and> map_of (clientStates s) a \<noteq> Some Open \<longrightarrow>
          post_init_begin a s = Inr (initializeClient_begin a False (destroyClient a s))
          \<and> countConnectedClients s =
              length (filter (\<lambda>(k, c). k \<noteq> a \<and> map_of (clientStates s) k = Some Open)
                        (clients s)))"
  using assms count_excludes[of s a]
  by (auto simp: post_init_begin_def MAX_CONCURRENT_SESSIONS_def Let_def)

theorem init_admission_witness:
  "post_init_begin ''a7'' five_open = Inl (CapacityError 5 5)
   \<and> post_init_begin ''a6'' five_open
       = Inr (initializeClient_begin ''a6'' False (destroyClient ''a6'' five_open))
   \<and> post_init_begin ''a1'' initial_server
       = Inr (initializeClient_begin ''a1'' False initial_server)"
proof -
  have c: "countConnectedClients five_open = 5"
    by (simp add: countConnectedClients_def five_open_def)
  have c0: "countConnectedClients initial_server = 0"
    by (simp add: countConnectedClients_def initial_server_def)
  have m: "MAX_CONCURRENT_SESSIONS = 5"
    by (simp add: MAX_CONCURRENT_SESSIONS_def)
  have n7: "map_of (clients five_open) ''a7'' = None"
    by (simp add: five_open_def)
  have n6: "map_of (clients five_open) ''a6'' \<noteq> None"
    "map_of (clientStates five_open) ''a6'' \<noteq> Some Open"
    by (simp_all add: five_open_def)
  have n1: "map_of (clients initial_server) ''a1'' = None"
    by (simp add: initial_server_def)
  have ne: "''a7'' \<noteq> []" "''a6'' \<noteq> []" "''a1'' \<noteq> []"
    by simp_all
  have le: "MAX_CONCURRENT_SESSIONS \<le> countConnectedClients five_open"
    using c m by simp
  have lt: "countConnectedClients initial_server < MAX_CONCURRENT_SESSIONS"
    using c0 m by simp
  have "post_init_begin ''a7'' five_open
          = Inl (CapacityError (countConnectedClients five_open) MAX_CONCURRENT_SESSIONS)"
    using init_admission[OF ne(1), of five_open 0] le n7 by blast
  moreover have "post_init_begin ''a6'' five_open
          = Inr (initializeClient_begin ''a6'' False (destroyClient ''a6'' five_open))"
    using init_admission[OF ne(2), of five_open 0] n6 by blast
  moreover have "post_init_begin ''a1'' initial_server
          = Inr (initializeClient_begin ''a1'' False initial_server)"
    using init_admission[OF ne(3), of initial_server 0] lt n1 by blast
  ultimately show ?thesis using c m by simp
qed

subsection \<open>The reconnect counter\<close>

text \<open>
  The counter is bounded. The threshold is 5. In every state that a run of the server
  reaches from a state with bounded counters (the empty maps of a fresh start among
  them), no account's reconnect counter exceeds the threshold, whether or not its
  session is still registered. A close for a reason other than logout that finds the
  counter at the threshold schedules no reconnect; it removes the account's client, QR
  image, state and counter and leaves the credential store as it was.
\<close>

theorem reconnect_counter_invariant:
  assumes "counter_bounded s0"
  shows "MAX_RECONNECT_ATTEMPTS = 5
    \<and> (\<forall>a n. map_of (reconnectAttempts (run lo evs s0)) a = Some n
               \<longrightarrow> n \<le> MAX_RECONNECT_ATTEMPTS)
    \<and> (shouldReconnect lo e \<and> map_of (reconnectAttempts s) a = Some k
          \<and> MAX_RECONNECT_ATTEMPTS \<le> k \<longrightarrow>
         snd (close_effect lo a e s) = GaveUp
         \<and> map_of (clients (fst (close_effect lo a e s))) a = None
         \<and> map_of (qrCodes (fst (close_effect lo a e s))) a = None
         \<and> map_of (clientStates (fst (close_effect lo a e s))) a = None
         \<and> map_of (reconnectAttempts (fst (close_effect lo a e s))) a = None
         \<and> authStore (fst (close_effect lo a e s)) = authStore s)"
proof (intro conjI allI impI)
  show "MAX_RECONNECT_ATTEMPTS = 5"
    by (simp add: MAX_RECONNECT_ATTEMPTS_def)
next
  fix a n
  assume "map_of (reconnectAttempts (run lo evs s0)) a = Some n"
  with run_bounded[OF assms, of lo evs] show "n \<le> MAX_RECONNECT_ATTEMPTS"
    by (rule counter_boundedD)
next
  assume h: "shouldReconnect lo e \<and> map_of (reconnectAttempts s) a = Some k
               \<and> MAX_RECONNECT_ATTEMPTS \<le> k"
  then have "\<not> (case map_of (reconnectAttempts s) a of None \<Rightarrow> 0 | Some n \<Rightarrow> n) + 1
                 \<le> MAX_RECONNECT_ATTEMPTS"
    by simp
  with h have g: "close_effect lo a e s =
      (s\<lparr>reconnectAttempts := AList.delete a (reconnectAttempts s),
         clients := AList.delete a (clients s),
         qrCodes := AList.delete a (qrCodes s),
         clientStates := AList.delete a (clientStates s)\<rparr>, GaveUp)"
    by (simp add: close_effect_gave_up)
  show "snd (close_effect lo a e s) = GaveUp"
    by (simp add: g)
  show "map_of (clients (fst (close_effect lo a e s))) a = None"
    by (simp add: g map_of_delete_same)
  show "map_of (qrCodes (fst (close_effect lo a e s))) a = None"
    by (simp add: g map_of_delete_same)
  show "map_of (clientStates (fst (close_effect lo a e s))) a = None"
    by (simp add: g map_of_delete_same)
  show "map_of (reconnectAttempts (fst (close_effect lo a e s))) a = None"
    by (simp add: g map_of_delete_same)
  show "authStore (fst (close_effect lo a e s)) = authStore s"
    by (simp add: g)
qed

theorem reconnect_counter_invariant_witness:
  "counter_bounded initial_server
   \<and> map_of (reconnectAttempts (run 401 pairing_expiry_trace initial_server)) ''acct1'' = Some 1
   \<and> (1::nat) \<le> MAX_RECONNECT_ATTEMPTS
   \<and> shouldReconnect 401 timed_out
   \<and> map_of (reconnectAttempts exhausted_server) ''acct1'' = Some 5
   \<and> snd (close_effect 401 ''acct1'' timed_out exhausted_server) = GaveUp
   \<and> map_of (clients (fst (close_effect 401 ''acct1'' timed_out exhausted_server))) ''acct1''
       = None
   \<and> authStore (fst (close_effect 401 ''acct1'' timed_out exhausted_server)) ''acct1''
       = Some ''blob''"
proof -
  have b: "counter_bounded initial_server"
    by (simp add: counter_bounded_def initial_server_def)
  have c: "map_of (reconnectAttempts (run 401 pairing_expiry_trace initial_server)) ''acct1''
             = Some 1"
    by (simp add: pairing_expiry_state)
  have x: "map_of (reconnectAttempts exhausted_server) ''acct1'' = Some 5"
    by (simp add: exhausted_server_def pairing_state_def)
  have m: "MAX_RECONNECT_ATTEMPTS \<le> 5"
    by (simp add: MAX_RECONNECT_ATTEMPTS_def)
  have au: "authStore exhausted_server ''acct1'' = Some ''blob''"
    by (simp add: exhausted_server_def pairing_state_def)
  note t = reconnect_counter_invariant[OF b, of 401 pairing_expiry_trace timed_out
      exhausted_server "''acct1''" 5]
  from t c have "(1::nat) \<le> MAX_RECONNECT_ATTEMPTS"
    by blast
  moreover from t timed_out_recoverable x m have
    "snd (close_effect 401 ''acct1'' timed_out exhausted_server) = GaveUp"
    "map_of (clients (fst (close_effect 401 ''acct1'' timed_out exhausted_server))) ''acct1''
       = None"
    "authStore (fst (close_effect 401 ''acct1'' timed_out exhausted_server))
       = authStore exhausted_server"
    by blast+
  ultimately show ?thesis
    using b c x au timed_out_recoverable by simp
qed

text \<open>
  Claim C2 at a concrete run. An account is initialised and its pairing code is never
  scanned: five times the connection closes for a reason other than logout and the
  reconnect shows a new pairing code, which arms the pairing timer again. The counter is
  then 5, and the sixth such close gives up: it schedules no reconnect, removes the
  client, the QR image, the state and the counter and keeps the stored credentials. But
  not every in-memory record of the account is gone: the armed pairing timer is still in
  \<^verbatim>\<open>qrTimeouts\<close>, because this branch does not call \<^verbatim>\<open>clearQrTimeout\<close> as the logout
  branch and \<^verbatim>\<open>destroyClient\<close> do. When that timer fires, \<^verbatim>\<open>destroyClient\<close> erases the
  stored credentials.
\<close>

theorem gave_up_leaves_timer:
  "map_of (reconnectAttempts (run 401 exhaustion_trace initial_server)) ''acct1'' = Some 5
   \<and> snd (close_effect 401 ''acct1'' timed_out (run 401 exhaustion_trace initial_server)) = GaveUp
   \<and> map_of (clients (run 401 (exhaustion_trace @ [CloseEvent ''acct1'' timed_out])
        initial_server)) ''acct1'' = None
   \<and> map_of (reconnectAttempts (run 401 (exhaustion_trace @ [CloseEvent ''acct1'' timed_out])
        initial_server)) ''acct1'' = None
   \<and> map_of (qrTimeouts (run 401 (exhaustion_trace @ [CloseEvent ''acct1'' timed_out])
        initial_server)) ''acct1'' = Some 180000
   \<and> authStore (run 401 (exhaustion_trace @ [CloseEvent ''acct1'' timed_out])
        initial_server) ''acct1'' = Some ''blob''
   \<and> authStore (run 401 (exhaustion_trace @ [CloseEvent ''acct1'' timed_out,
        QrTimeoutFired ''acct1'']) initial_server) ''acct1'' = None"
proof -
  let ?g = "exhausted_server\<lparr>reconnectAttempts := [], clients := [], qrCodes := [],
              clientStates := []\<rparr>"
  have a: "run 401 (exhaustion_trace @ [CloseEvent ''acct1'' timed_out]) initial_server = ?g"
    by (simp add: run_append exhaustion_state run_Cons run_Nil exhausted_gives_up)
  have b: "run 401 (exhaustion_trace @ [CloseEvent ''acct1'' timed_out,
        QrTimeoutFired ''acct1'']) initial_server = qr_timeout_fired ''acct1'' ?g"
    by (simp add: run_append exhaustion_state run_Cons run_Nil exhausted_gives_up)
  have t: "map_of (qrTimeouts ?g) ''acct1'' = Some 180000"
    by (simp add: exhausted_server_def pairing_state_def)
  have c: "map_of (reconnectAttempts exhausted_server) ''acct1'' = Some 5"
    by (simp add: exhausted_server_def pairing_state_def)
  have d: "map_of (clients ?g) ''acct1'' = None" "map_of (reconnectAttempts ?g) ''acct1'' = None"
    "authStore ?g ''acct1'' = Some ''blob''"
    by (simp_all add: exhausted_server_def pairing_state_def)
  have e: "authStore (qr_timeout_fired ''acct1'' ?g) ''acct1'' = None"
    using qr_timeout_teardown(5)[OF t] .
  show ?thesis
    unfolding a b exhaustion_state using c d t e by (simp add: exhausted_gives_up)
qed

subsection \<open>Classification of close reasons\<close>

text \<open>
  Claim C3. A close is treated as a logout exactly when its status code equals the
  transport's logged-out code. On a logout the account's client, QR image, state and
  counter are removed and its stored credentials are deleted. Every other close takes
  the reconnect path: the credentials are kept and, with \<open>k\<close> the incremented counter,
  a reconnect is scheduled when \<open>k\<close> is within the threshold and abandoned otherwise.
\<close>

theorem close_classification:
  "(snd (close_effect lo a e s) = LoggedOut \<longleftrightarrow> close_statusCode e = Some lo)
   \<and> (close_statusCode e = Some lo \<longrightarrow>
        map_of (clients (fst (close_effect lo a e s))) a = None
        \<and> map_of (qrCodes (fst (close_effect lo a e s))) a = None
        \<and> map_of (clientStates (fst (close_effect lo a e s))) a = None
        \<and> map_of (reconnectAttempts (fst (close_effect lo a e s))) a = None
        \<and> authStore (fst (close_effect lo a e s)) a = None)
   \<and> (close_statusCode e \<noteq> Some lo \<longrightarrow>
        authStore (fst (close_effect lo a e s)) = authStore s
        \<and> snd (close_effect lo a e s) =
            (let k = (case map_of (reconnectAttempts s) a of None \<Rightarrow> 0 | Some n \<Rightarrow> n) + 1
             in if k \<le> MAX_RECONNECT_ATTEMPTS then Reconnect k (reconnect_delay k)
                else GaveUp))"
proof (cases "shouldReconnect lo e")
  case True
  then have ne: "close_statusCode e \<noteq> Some lo"
    by (simp add: shouldReconnect_def)
  show ?thesis
  proof (cases "(case map_of (reconnectAttempts s) a of None \<Rightarrow> 0 | Some n \<Rightarrow> n) + 1
                  \<le> MAX_RECONNECT_ATTEMPTS")
    case le: True
    show ?thesis
      using ne le by (simp add: close_effect_reconnect[OF True refl le] Let_def)
  next
    case gt: False
    show ?thesis
      using ne gt by (simp add: close_effect_gave_up[OF True gt] Let_def)
  qed
next
  case False
  then have eq: "close_statusCode e = Some lo"
    by (simp add: shouldReconnect_def)
  show ?thesis
    using eq by (simp add: close_effect_logged_out[OF False] map_of_delete_same)
qed

theorem close_classification_witness:
  "close_statusCode logged_out_401 = Some 401
   \<and> snd (close_effect 401 ''acct1'' logged_out_401 paired_server) = LoggedOut
   \<and> map_of (clients (fst (close_effect 401 ''acct1'' logged_out_401 paired_server))) ''acct1''
       = None
   \<and> authStore (fst (close_effect 401 ''acct1'' logged_out_401 paired_server)) ''acct1'' = None
   \<and> close_statusCode timed_out \<noteq> Some 401
   \<and> snd (close_effect 401 ''acct1'' timed_out paired_server) = Reconnect 1 2000
   \<and> authStore (fst (close_effect 401 ''acct1'' timed_out paired_server)) ''acct1''
       = Some ''blob''"
proof -
  have l: "close_statusCode logged_out_401 = Some 401"
    by (simp add: close_statusCode_def logged_out_401_def)
  have t: "close_statusCode timed_out \<noteq> Some 401"
    by (simp add: close_statusCode_def timed_out_def)
  note A = close_classification[of 401 "''acct1''" logged_out_401 paired_server]
  note B = close_classification[of 401 "''acct1''" timed_out paired_server]
  have k: "(let k = (case map_of (reconnectAttempts paired_server) ''acct1'' of
                       None \<Rightarrow> 0 | Some n \<Rightarrow> n) + 1
            in if k \<le> MAX_RECONNECT_ATTEMPTS then Reconnect k (reconnect_delay k) else GaveUp)
           = Reconnect 1 2000"
    by (simp add: paired_server_def MAX_RECONNECT_ATTEMPTS_def reconnect_delay_def)
  have au: "authStore paired_server ''acct1'' = Some ''blob''"
    by (simp add: paired_server_def)
  from A l have a1: "snd (close_effect 401 ''acct1'' logged_out_401 paired_server) = LoggedOut"
    and a2: "map_of (clients (fst (close_effect 401 ''acct1'' logged_out_401 paired_server)))
               ''acct1'' = None"
    and a3: "authStore (fst (close_effect 401 ''acct1'' logged_out_401 paired_server)) ''acct1''
               = None"
    by blast+
  from B t have b1: "snd (close_effect 401 ''acct1'' timed_out paired_server) =
       (let k = (case map_of (reconnectAttempts paired_server) ''acct1'' of
                   None \<Rightarrow> 0 | Some n \<Rightarrow> n) + 1
        in if k \<le> MAX_RECONNECT_ATTEMPTS then Reconnect k (reconnect_delay k) else GaveUp)"
    and b2: "authStore (fst (close_effect 401 ''acct1'' timed_out paired_server))
               = authStore paired_server"
    by blast+
  show ?thesis
    using l t a1 a2 a3 b1 b2 k au by simp
qed

subsection \<open>Init and stored credentials\<close>

text \<open>
  Claim C4, as stated, fails. On the freshly started service with stored credentials for
  \<^verbatim>\<open>acct1\<close> and no client record, the init request erases the credentials before the
  socket is made, so the socket starts without them; and if the transport then reports
  the connection open without a pairing code, the request is answered with the error
  \<^verbatim>\<open>QR code not generated after initialization\<close>, not with the connected identity.
\<close>

theorem init_resume_counterexample:
  "map_of (clients stored_server) ''acct1'' = None
   \<and> authStore stored_server ''acct1'' = Some ''blob''
   \<and> initializeClient_auth ''acct1'' False stored_server = None
   \<and> authStore (step 401 (PostInit ''acct1'') stored_server) ''acct1'' = None
   \<and> snd (post_init_end ''acct1'' (Resolved acct1_client)
            (run 401 [PostInit ''acct1'', OpenEvent ''acct1''] stored_server))
       = ServerError QrNotGenerated"
  by (simp add: stored_server_def initial_server_def initializeClient_auth_def
      initializeClient_begin_eq post_init_begin_def countConnectedClients_def
      MAX_CONCURRENT_SESSIONS_def run_Cons run_Nil open_effect_eq post_init_end_def
      destroyClient_eq Let_def)

text \<open>
  Claim C4, amended. An init request never resumes from stored credentials: whenever it
  goes on to create a transport, the account's stored credentials have been erased. The
  resume belongs to the automatic reconnect: \<^verbatim>\<open>initializeClient(agentId, true)\<close> changes
  nothing and starts the socket with the stored credentials, and a connection-opened
  event sets the state to open, leaves no pairing image and no pairing timer, keeps the
  credentials, and resolves a pending promise with the client.
\<close>

theorem init_resume_amended:
  "(post_init_begin a s = Inr s1 \<longrightarrow> authStore s1 a = None)
   \<and> initializeClient_begin a True s = s
   \<and> initializeClient_auth a True s = authStore s a
   \<and> map_of (clientStates (open_effect a s)) a = Some Open
   \<and> map_of (qrCodes (open_effect a s)) a = None
   \<and> map_of (qrTimeouts (open_effect a s)) a = None
   \<and> authStore (open_effect a s) = authStore s
   \<and> settled (open_settle (new_session a c)) = [Resolved c]"
proof (intro conjI impI)
  assume h: "post_init_begin a s = Inr s1"
  show "authStore s1 a = None"
  proof (cases "map_of (clients s) a = None")
    case True
    with h have "s1 = initializeClient_begin a False s"
      by (simp add: post_init_begin_def Let_def split: if_splits)
    with True show ?thesis
      by (simp add: initializeClient_begin_eq)
  next
    case False
    with h have "s1 = initializeClient_begin a False (destroyClient a s)"
      by (simp add: post_init_begin_def Let_def split: if_splits)
    then show ?thesis
      by (simp add: initializeClient_begin_eq destroyClient_eq)
  qed
next
  show "initializeClient_begin a True s = s"
    by (simp add: initializeClient_begin_eq)
  show "initializeClient_auth a True s = authStore s a"
    by (simp add: initializeClient_auth_def initializeClient_begin_eq)
  show "map_of (clientStates (open_effect a s)) a = Some Open"
    by (simp add: open_effect_eq AList.update_conv')
  show "map_of (qrCodes (open_effect a s)) a = None"
    by (simp add: open_effect_eq map_of_delete_same)
  show "map_of (qrTimeouts (open_effect a s)) a = None"
    by (simp add: open_effect_eq map_of_delete_same)
  show "authStore (open_effect a s) = authStore s"
    by (simp add: open_effect_eq)
  show "settled (open_settle (new_session a c)) = [Resolved c]"
    by (simp add: open_settle_def settle_once_def new_session_def)
qed

theorem init_resume_amended_witness:
  "post_init_begin ''acct1'' stored_server = Inr initial_server
   \<and> authStore initial_server ''acct1'' = None
   \<and> initializeClient_auth ''acct1'' True stored_server = Some ''blob''
   \<and> map_of (clientStates (open_effect ''acct1'' stored_server)) ''acct1'' = Some Open"
proof -
  have b: "post_init_begin ''acct1'' stored_server = Inr initial_server"
    by (simp add: stored_server_def initial_server_def initializeClient_begin_eq
        post_init_begin_def countConnectedClients_def MAX_CONCURRENT_SESSIONS_def)
  have au: "authStore stored_server ''acct1'' = Some ''blob''"
    by (simp add: stored_server_def)
  note t = init_resume_amended[of "''acct1''" stored_server initial_server acct1_client]
  from t b have "authStore initial_server ''acct1'' = None"
    by blast
  moreover from t au have "initializeClient_auth ''acct1'' True stored_server = Some ''blob''"
    by simp
  moreover from t have
    "map_of (clientStates (open_effect ''acct1'' stored_server)) ''acct1'' = Some Open"
    by blast
  ultimately show ?thesis
    using b by simp
qed

subsection \<open>Pairing expiry\<close>

text \<open>
  Claim C5 at a concrete run. The account is initialised on a fresh service without
  stored credentials and gets its pairing image with the 180 second timeout; the socket
  saves its first credentials. The connection then closes for a reason other than
  logout, which counts one reconnect attempt, and no connection-opened event comes
  before the pairing timer fires. The
  teardown logs out the registered socket 1, which has closed and so reports nothing
  back, and removes the client, the QR image, the timer, the state and the stored
  credentials. The account's reconnect counter is still in memory with the value 1:
  \<^verbatim>\<open>destroyClient\<close> does not delete from \<^verbatim>\<open>reconnectAttempts\<close>, as the logout and the
  give-up branches of the close handler do. (Had the timer fired on a connected socket,
  the close that answers the logout would have removed the counter:
  \<open>pairing_expiry_connected_clean\<close>.)
\<close>

theorem pairing_expiry_leaves_counter:
  "snd (post_init_end ''acct1'' (Resolved acct1_client)
          (run 401 [PostInit ''acct1'', QrEvent ''acct1'' (Rendered ''qr1'')] initial_server))
     = QrResponse ''qr1'' ''acct1'' 180
   \<and> destroyClient_calls ''acct1'' False
         (run 401 (butlast pairing_expiry_trace) initial_server) = [Logout 1]
   \<and> logout_event 401 {1} ''acct1'' 1 = []
   \<and> authStore (run 401 (butlast pairing_expiry_trace) initial_server) ''acct1''
       = Some ''blob''
   \<and> map_of (clients (run 401 pairing_expiry_trace initial_server)) ''acct1'' = None
   \<and> map_of (qrCodes (run 401 pairing_expiry_trace initial_server)) ''acct1'' = None
   \<and> map_of (qrTimeouts (run 401 pairing_expiry_trace initial_server)) ''acct1'' = None
   \<and> map_of (clientStates (run 401 pairing_expiry_trace initial_server)) ''acct1'' = None
   \<and> authStore (run 401 pairing_expiry_trace initial_server) ''acct1'' = None
   \<and> map_of (reconnectAttempts (run 401 pairing_expiry_trace initial_server)) ''acct1''
       = Some 1"
proof -
  have "run 401 [PostInit ''acct1'', QrEvent ''acct1'' (Rendered ''qr1'')] initial_server
          = qr_effect ''acct1'' (Rendered ''qr1'') initial_server"
    by (simp add: run_Cons run_Nil post_init_begin_def countConnectedClients_def
        MAX_CONCURRENT_SESSIONS_def initializeClient_begin_eq initial_server_def)
  then have r: "snd (post_init_end ''acct1'' (Resolved acct1_client)
          (run 401 [PostInit ''acct1'', QrEvent ''acct1'' (Rendered ''qr1'')] initial_server))
     = QrResponse ''qr1'' ''acct1'' 180"
    by (simp add: pairing_response)
  have b: "butlast pairing_expiry_trace =
     [PostInit ''acct1'', QrEvent ''acct1'' (Rendered ''qr1''),
      InitSettled ''acct1'' (Resolved acct1_client), CredsUpdate ''acct1'' ''blob'',
      CloseEvent ''acct1'' timed_out]"
    by (simp add: pairing_expiry_trace_def)
  have c: "destroyClient_calls ''acct1'' False
         (run 401 (butlast pairing_expiry_trace) initial_server) = [Logout 1]"
    unfolding b pairing_pending_state by (simp add: destroyClient_calls_def acct1_client_def)
  have l: "logout_event 401 {1} ''acct1'' 1 = []"
    by (simp add: logout_event_def)
  have a: "authStore (run 401 (butlast pairing_expiry_trace) initial_server) ''acct1''
       = Some ''blob''"
    unfolding b pairing_pending_state by simp
  have e: "map_of (clients (initial_server\<lparr>reconnectAttempts := [(''acct1'', 1)]\<rparr>)) ''acct1''
             = None"
    "map_of (qrCodes (initial_server\<lparr>reconnectAttempts := [(''acct1'', 1)]\<rparr>)) ''acct1''
             = None"
    "map_of (qrTimeouts (initial_server\<lparr>reconnectAttempts := [(''acct1'', 1)]\<rparr>)) ''acct1''
             = None"
    "map_of (clientStates (initial_server\<lparr>reconnectAttempts := [(''acct1'', 1)]\<rparr>)) ''acct1''
             = None"
    "authStore (initial_server\<lparr>reconnectAttempts := [(''acct1'', 1)]\<rparr>) ''acct1'' = None"
    "map_of (reconnectAttempts (initial_server\<lparr>reconnectAttempts := [(''acct1'', 1)]\<rparr>))
       ''acct1'' = Some 1"
    by (simp_all add: initial_server_def)
  show ?thesis
    unfolding pairing_expiry_state using r c l a e by blast
qed

subsection \<open>Single resolution of the init promise\<close>

text \<open>
  Claim C6. Whatever updates are delivered to a session, \<^verbatim>\<open>resolve\<close> and \<^verbatim>\<open>reject\<close> are
  called at most once in all. (An update with a single field is one stretch of the
  handler, so the lists of updates include every interleaving of the stretches.) A
  pairing code that reaches a session whose promise is still pending resolves it with
  the client data, and the image is stored for the caller to read. Once the flag is
  up, no update resolves or rejects again, while a pairing code still replaces the
  stored image.
\<close>

theorem init_settles_once:
  "length (settled (deliver us (new_session a c))) \<le> 1
   \<and> settled (update_settle (qr_update img) (new_session a c)) = [Resolved c]
   \<and> (qrResolved ss \<longrightarrow> update_settle u ss = ss)
   \<and> map_of (qrCodes (qr_effect a (Rendered img) s)) a = Some img"
proof (intro conjI impI)
  from deliver_keeps[OF new_session_settles_once, of us a c]
  show "length (settled (deliver us (new_session a c))) \<le> 1"
    by (simp add: settles_once_def)
  show "settled (update_settle (qr_update img) (new_session a c)) = [Resolved c]"
    by (simp add: update_settle_def qr_update_def qr_settle_def settle_once_def new_session_def)
  show "map_of (qrCodes (qr_effect a (Rendered img) s)) a = Some img"
    by (simp add: qr_effect_eq AList.update_conv')
next
  assume "qrResolved ss"
  then show "update_settle u ss = ss"
    by (rule update_settle_done)
qed

theorem init_settles_once_witness:
  "qrResolved (update_settle (qr_update ''qr1'') (new_session ''acct1'' acct1_client))
   \<and> update_settle (qr_update ''qr2'')
         (update_settle (qr_update ''qr1'') (new_session ''acct1'' acct1_client))
       = update_settle (qr_update ''qr1'') (new_session ''acct1'' acct1_client)
   \<and> settled (update_settle (qr_update ''qr1'') (new_session ''acct1'' acct1_client))
       = [Resolved acct1_client]
   \<and> map_of (qrCodes (qr_effect ''acct1'' (Rendered ''qr2'')
                 (qr_effect ''acct1'' (Rendered ''qr1'') initial_server))) ''acct1'' = Some ''qr2''
   \<and> length (settled (deliver [qr_update ''qr1'', qr_update ''qr2'', open_update,
                 close_update timed_out] (new_session ''acct1'' acct1_client))) \<le> 1"
proof -
  let ?s1 = "update_settle (qr_update ''qr1'') (new_session ''acct1'' acct1_client)"
  have f: "qrResolved ?s1"
    by (simp add: update_settle_def qr_update_def qr_settle_def settle_once_def new_session_def)
  note t = init_settles_once[of "[qr_update ''qr1'', qr_update ''qr2'', open_update,
        close_update timed_out]" "''acct1''" acct1_client "''qr1''" ?s1 "qr_update ''qr2''"]
  note t2 = init_settles_once[of "[]" "''acct1''" acct1_client "''qr2''" ?s1 "qr_update ''qr2''"
      "qr_effect ''acct1'' (Rendered ''qr1'') initial_server"]
  from t f have "update_settle (qr_update ''qr2'') ?s1 = ?s1"
    by blast
  moreover from t have "settled ?s1 = [Resolved acct1_client]"
    by blast
  moreover from t2 have "map_of (qrCodes (qr_effect ''acct1'' (Rendered ''qr2'')
                 (qr_effect ''acct1'' (Rendered ''qr1'') initial_server))) ''acct1'' = Some ''qr2''"
    by blast
  moreover from t have "length (settled (deliver [qr_update ''qr1'', qr_update ''qr2'',
      open_update, close_update timed_out] (new_session ''acct1'' acct1_client))) \<le> 1"
    by blast
  ultimately show ?thesis
    using f by simp
qed

subsection \<open>Reconnect backoff\<close>

text \<open>
  The delay. Before reconnect attempt \<open>n\<close> the handler waits \<open>min (n * 2000) 10000\<close>
  milliseconds: the delay never decreases as \<open>n\<close> grows and never exceeds 10000. A
  close for a reason other than logout whose incremented counter \<open>k\<close> is within the
  threshold schedules the reconnect with that delay and leaves the credential store
  alone, and the first part of \<^verbatim>\<open>initializeClient(agentId, true)\<close> leaves the stored
  credentials untouched.
\<close>

theorem reconnect_backoff:
  "reconnect_delay n = min (n * 2000) 10000
   \<and> (n \<le> m \<longrightarrow> reconnect_delay n \<le> reconnect_delay m)
   \<and> reconnect_delay n \<le> 10000
   \<and> (shouldReconnect lo e
        \<and> (case map_of (reconnectAttempts s) a of None \<Rightarrow> 0 | Some j \<Rightarrow> j) + 1 = k
        \<and> k \<le> MAX_RECONNECT_ATTEMPTS \<longrightarrow>
          snd (close_effect lo a e s) = Reconnect k (reconnect_delay k)
          \<and> authStore (fst (close_effect lo a e s)) = authStore s)
   \<and> initializeClient_begin a True s = s
   \<and> initializeClient_auth a True s = authStore s a"
proof (intro conjI impI)
  show "reconnect_delay n = min (n * 2000) 10000"
    by (simp add: reconnect_delay_def)
  show "reconnect_delay n \<le> 10000"
    by (simp add: reconnect_delay_def)
  show "initializeClient_begin a True s = s"
    by (simp add: initializeClient_begin_eq)
  show "initializeClient_auth a True s = authStore s a"
    by (simp add: initializeClient_auth_def initializeClient_begin_eq)
next
  assume "n \<le> m"
  then show "reconnect_delay n \<le> reconnect_delay m"
    by (simp add: reconnect_delay_def min_le_iff_disj)
next
  assume h: "shouldReconnect lo e
     \<and> (case map_of (reconnectAttempts s) a of None \<Rightarrow> 0 | Some j \<Rightarrow> j) + 1 = k
     \<and> k \<le> MAX_RECONNECT_ATTEMPTS"
  then have g: "close_effect lo a e s =
     (s\<lparr>clientStates := AList.update a Close (clientStates s),
        reconnectAttempts := AList.update a k (reconnectAttempts s)\<rparr>,
      Reconnect k (reconnect_delay k))"
    by (simp add: close_effect_reconnect)
  show "snd (close_effect lo a e s) = Reconnect k (reconnect_delay k)"
    by (simp add: g)
  show "authStore (fst (close_effect lo a e s)) = authStore s"
    by (simp add: g)
qed

theorem reconnect_backoff_witness:
  "reconnect_delay 1 = 2000 \<and> reconnect_delay 4 = 8000 \<and> reconnect_delay 5 = 10000
   \<and> reconnect_delay 4 \<le> reconnect_delay 5
   \<and> snd (close_effect 401 ''acct1'' timed_out paired_server) = Reconnect 1 2000
   \<and> authStore (fst (close_effect 401 ''acct1'' timed_out paired_server)) ''acct1''
       = Some ''blob''
   \<and> initializeClient_auth ''acct1'' True paired_server = Some ''blob''"
proof -
  have c: "(case map_of (reconnectAttempts paired_server) ''acct1'' of
              None \<Rightarrow> 0 | Some j \<Rightarrow> j) + 1 = 1"
    by (simp add: paired_server_def)
  have m: "(1::nat) \<le> MAX_RECONNECT_ATTEMPTS"
    by (simp add: MAX_RECONNECT_ATTEMPTS_def)
  have au: "authStore paired_server ''acct1'' = Some ''blob''"
    by (simp add: paired_server_def)
  have le: "(4::nat) \<le> 5"
    by simp
  note t = reconnect_backoff[of 4 5 401 timed_out paired_server "''acct1''" 1]
  note t1 = reconnect_backoff[of 1 5 401 timed_out paired_server "''acct1''" 1]
  note t5 = reconnect_backoff[of 5 5 401 timed_out paired_server "''acct1''" 1]
  from t le have "reconnect_delay 4 \<le> reconnect_delay 5"
    by blast
  moreover from t timed_out_recoverable c m have
    "snd (close_effect 401 ''acct1'' timed_out paired_server) = Reconnect 1 (reconnect_delay 1)"
    "authStore (fst (close_effect 401 ''acct1'' timed_out paired_server))
       = authStore paired_server"
    by blast+
  moreover from t have "initializeClient_auth ''acct1'' True paired_server
       = authStore paired_server ''acct1''"
    by blast
  moreover from t1 have "reconnect_delay 1 = 2000"
    by simp
  moreover from t have "reconnect_delay 4 = 8000"
    by simp
  moreover from t5 have "reconnect_delay 5 = 10000"
    by simp
  ultimately show ?thesis
    using au by simp
qed

text \<open>
  Claim C7 at a concrete run. An account is paired and open, and its connection closes
  for a reason other than logout. The reconnect is scheduled with the delay of 2000 ms,
  but it does not re-enter Connecting: the close handler has set the stored state to
  \<open>Close\<close>, and neither the start of the reconnect nor its settling sets it to
  \<open>Connecting\<close>, as \<^verbatim>\<open>POST /init\<close> does after its own \<^verbatim>\<open>initializeClient\<close>. The sweeper
  spares only the states \<open>Open\<close> and \<open>Connecting\<close>; when it runs during the reconnect it
  tears the account down (the registered socket 1 has closed, so its logout throws and
  nothing is reported back) and the stored credentials, which the reconnect was to
  preserve, are erased.
\<close>

theorem reconnect_stays_closed:
  "snd (close_effect 401 ''acct1'' timed_out (run 401 open_trace initial_server))
     = Reconnect 1 2000
   \<and> map_of (clientStates (run 401 reconnecting_trace initial_server)) ''acct1'' = Some Close
   \<and> map_of (clientStates (run 401 (reconnecting_trace @
          [QrEvent ''acct1'' (Rendered ''qr2''),
           ReconnectSettled ''acct1'' (Resolved acct1_reconnected)]) initial_server)) ''acct1''
       = Some Close
   \<and> authStore (run 401 reconnecting_trace initial_server) ''acct1'' = Some ''blob''
   \<and> destroyClient_calls ''acct1'' True (run 401 reconnecting_trace initial_server)
       = [Logout 1, End 1]
   \<and> logout_event 401 {1} ''acct1'' 1 = []
   \<and> map_of (clients (run 401 (reconnecting_trace @ [Cleanup]) initial_server)) ''acct1''
       = None
   \<and> authStore (run 401 (reconnecting_trace @ [Cleanup]) initial_server) ''acct1'' = None"
proof -
  have d: "snd (close_effect 401 ''acct1'' timed_out (run 401 open_trace initial_server))
     = Reconnect 1 2000"
    unfolding open_trace_state
    by (simp add: close_effect_reconnect[OF timed_out_recoverable, where k = 1]
        paired_server_def MAX_RECONNECT_ATTEMPTS_def reconnect_delay_def)
  have s: "map_of (clientStates reconnecting_server) ''acct1'' = Some Close"
    "authStore reconnecting_server ''acct1'' = Some ''blob''"
    "destroyClient_calls ''acct1'' True reconnecting_server = [Logout 1, End 1]"
    by (simp_all add: reconnecting_server_def destroyClient_calls_def acct1_client_def)
  have q: "map_of (clientStates (run 401 [QrEvent ''acct1'' (Rendered ''qr2''),
           ReconnectSettled ''acct1'' (Resolved acct1_reconnected)] reconnecting_server))
        ''acct1'' = Some Close"
    by (simp add: run_Cons run_Nil qr_effect_eq reconnect_settled_def reconnecting_server_def)
  have l: "logout_event 401 {1} ''acct1'' 1 = []"
    by (simp add: logout_event_def)
  have c: "run 401 [Cleanup] reconnecting_server
      = initial_server\<lparr>reconnectAttempts := [(''acct1'', 1)]\<rparr>"
    by (simp add: run_Cons run_Nil cleanup_def cleanup_client_def destroyClient_eq
        reconnecting_server_def initial_server_def)
  have e: "map_of (clients (initial_server\<lparr>reconnectAttempts := [(''acct1'', 1)]\<rparr>)) ''acct1''
      = None"
    "authStore (initial_server\<lparr>reconnectAttempts := [(''acct1'', 1)]\<rparr>) ''acct1'' = None"
    by (simp_all add: initial_server_def)
  show ?thesis
    unfolding run_append reconnecting_state c using d s q l e by blast
qed

subsection \<open>Media side channel\<close>

text \<open>
  Claim C8. A download or an upload of media happens only for a message that was not
  sent by the account itself and is of the media, voice or sticker class. Every message
  that passes the early filters of the loop is posted to the webhook exactly once,
  whatever the media collaborators answer. When the download throws, or the upload
  throws or is refused, an error is logged and the posted record has no asset
  reference. When the upload succeeds, the posted record carries the media subtype and
  a non-empty asset reference.
\<close>

theorem media_side_channel:
  "((DownloadMedia t \<in> set (relay_message cfg env msg)
       \<or> UploadMedia u ct \<in> set (relay_message cfg env msg)) \<longrightarrow>
      \<not> fromMe msg
      \<and> (\<exists>m. content msg = Some m \<and> is_media_class (fst (detectMessageType (Some m)))))
   \<and> (is_relayed msg \<longrightarrow> (\<exists>r. webhook_records (relay_message cfg env msg) = [r]))
   \<and> (is_relayed msg \<and> \<not> fromMe msg \<and> is_media_class (fst (detectMessageType (content msg)))
        \<and> fetch_failed env \<longrightarrow>
        (\<exists>l. LogError l \<in> set (relay_message cfg env msg))
        \<and> (\<exists>r. webhook_records (relay_message cfg env msg) = [r]
               \<and> media_url (metadata r) = None \<and> media_filename (metadata r) = None))
   \<and> (is_relayed msg \<and> \<not> fromMe msg \<and> is_media_class (fst (detectMessageType (content msg)))
        \<and> download env = Downloaded True \<and> upload env = UploadOk \<longrightarrow>
        (\<exists>r ty url. webhook_records (relay_message cfg env msg) = [r]
               \<and> snd (detectMessageType (content msg)) = Some ty \<and> ty \<noteq> []
               \<and> media_type (metadata r) = Some ty
               \<and> media_url (metadata r) = Some url \<and> url \<noteq> []))"
proof (intro conjI impI)
  assume "DownloadMedia t \<in> set (relay_message cfg env msg)
       \<or> UploadMedia u ct \<in> set (relay_message cfg env msg)"
  then have g: "\<not> fromMe msg
      \<and> (\<exists>m. content msg = Some m \<and> is_media_class (fst (detectMessageType (Some m))))"
    by (rule relay_message_fetches)
  from g show "\<not> fromMe msg" by simp
  from g show "\<exists>m. content msg = Some m \<and> is_media_class (fst (detectMessageType (Some m)))"
    by simp
next
  assume "is_relayed msg"
  then obtain jid m where j: "or_null (remoteJid msg) = Some jid" "jid \<noteq> ''status@broadcast''"
      "content msg = Some m"
    using is_relayedD by blast
  show "\<exists>r. webhook_records (relay_message cfg env msg) = [r]"
    by (simp add: relay_message_records[OF j])
next
  assume h: "is_relayed msg \<and> \<not> fromMe msg
      \<and> is_media_class (fst (detectMessageType (content msg))) \<and> fetch_failed env"
  then obtain jid m where j: "or_null (remoteJid msg) = Some jid" "jid \<noteq> ''status@broadcast''"
      "content msg = Some m"
    using is_relayedD by blast
  from h j have mc: "is_media_class (fst (detectMessageType (Some m)))" by simp
  from h mc have mf: "media_fetch cfg env msg m
       = fetch_media (supabaseUrl cfg) env msg m (or_else (snd (detectMessageType (Some m))) [])"
    by (simp add: media_fetch_def Let_def)
  from h have ff: "fst (media_fetch cfg env msg m) = None
       \<and> (\<exists>l. LogError l \<in> set (snd (media_fetch cfg env msg m)))"
    unfolding mf by (simp add: fetch_media_failed)
  from ff show "\<exists>l. LogError l \<in> set (relay_message cfg env msg)"
    by (auto simp: relay_message_relayed[OF j])
  from ff show "\<exists>r. webhook_records (relay_message cfg env msg) = [r]
               \<and> media_url (metadata r) = None \<and> media_filename (metadata r) = None"
    by (simp add: relay_message_records[OF j] record_media_url record_media_filename)
next
  assume h: "is_relayed msg \<and> \<not> fromMe msg
      \<and> is_media_class (fst (detectMessageType (content msg)))
      \<and> download env = Downloaded True \<and> upload env = UploadOk"
  then obtain jid m where j: "or_null (remoteJid msg) = Some jid" "jid \<noteq> ''status@broadcast''"
      "content msg = Some m"
    using is_relayedD by blast
  from h j have mc: "is_media_class (fst (detectMessageType (Some m)))" by simp
  then obtain ty where ty: "snd (detectMessageType (Some m)) = Some ty" "ty \<noteq> []"
    using detect_media_subtype by blast
  from h mc have mf: "media_fetch cfg env msg m
       = fetch_media (supabaseUrl cfg) env msg m (or_else (snd (detectMessageType (Some m))) [])"
    by (simp add: media_fetch_def Let_def)
  from h have ok: "fst (media_fetch cfg env msg m)
     = Some (supabaseUrl cfg @ ''/storage/v1/object/public/whatsapp-media/''
               @ media_fileName env msg m, media_fileName env msg m)"
    unfolding mf by (simp add: fetch_media_ok)
  show "\<exists>r ty url. webhook_records (relay_message cfg env msg) = [r]
               \<and> snd (detectMessageType (content msg)) = Some ty \<and> ty \<noteq> []
               \<and> media_type (metadata r) = Some ty
               \<and> media_url (metadata r) = Some url \<and> url \<noteq> []"
    using ty mc j ok
    by (simp add: relay_message_records[OF j] record_media_url record_media_type)
qed

theorem media_side_channel_witness:
  "is_relayed image_msg \<and> \<not> fromMe image_msg
   \<and> is_media_class (fst (detectMessageType (content image_msg)))
   \<and> fetch_failed env_refused
   \<and> (\<exists>l. LogError l \<in> set (relay_message relay_cfg0 env_refused image_msg))
   \<and> (\<exists>r. webhook_records (relay_message relay_cfg0 env_refused image_msg) = [r]
          \<and> media_url (metadata r) = None \<and> media_filename (metadata r) = None)
   \<and> download env_ok = Downloaded True \<and> upload env_ok = UploadOk
   \<and> (\<exists>r ty url. webhook_records (relay_message relay_cfg0 env_ok image_msg) = [r]
          \<and> snd (detectMessageType (content image_msg)) = Some ty \<and> ty \<noteq> []
          \<and> media_type (metadata r) = Some ty
          \<and> media_url (metadata r) = Some url \<and> url \<noteq> [])"
proof -
  have f: "fetch_failed env_refused"
    by (simp add: fetch_failed_def env_refused_def)
  have o: "download env_ok = Downloaded True" "upload env_ok = UploadOk"
    by (simp_all add: env_ok_def)
  note A = media_side_channel[of "''image''" relay_cfg0 env_refused image_msg "''u''" "''c''"]
  note B = media_side_channel[of "''image''" relay_cfg0 env_ok image_msg "''u''" "''c''"]
  from A image_msg_facts(1-3) f have
    "\<exists>l. LogError l \<in> set (relay_message relay_cfg0 env_refused image_msg)"
    "\<exists>r. webhook_records (relay_message relay_cfg0 env_refused image_msg) = [r]
          \<and> media_url (metadata r) = None \<and> media_filename (metadata r) = None"
    by blast+
  moreover from B image_msg_facts(1-3) o have
    "\<exists>r ty url. webhook_records (relay_message relay_cfg0 env_ok image_msg) = [r]
          \<and> snd (detectMessageType (content image_msg)) = Some ty \<and> ty \<noteq> []
          \<and> media_type (metadata r) = Some ty
          \<and> media_url (metadata r) = Some url \<and> url \<noteq> []"
    by blast
  ultimately show ?thesis
    using image_msg_facts(1-3) f o by blast
qed

subsection \<open>Disconnect\<close>

text \<open>
  Claim C9, as stated, fails. On the freshly started service with stored credentials for
  \<^verbatim>\<open>acct1\<close> the account has no registered client, yet a disconnect changes the state:
  it erases the stored credentials.
\<close>

theorem disconnect_noop_counterexample:
  "map_of (clients stored_server) ''acct1'' = None
   \<and> authStore stored_server ''acct1'' = Some ''blob''
   \<and> snd (post_disconnect ''acct1'' stored_server) = Disconnected
   \<and> authStore (fst (post_disconnect ''acct1'' stored_server)) ''acct1'' = None
   \<and> fst (post_disconnect ''acct1'' stored_server) \<noteq> stored_server"
proof -
  have a: "authStore stored_server ''acct1'' = Some ''blob''"
    by (simp add: stored_server_def)
  have b: "authStore (fst (post_disconnect ''acct1'' stored_server)) ''acct1'' = None"
    by (simp add: post_disconnect_def destroyClient_eq)
  from a b have "fst (post_disconnect ''acct1'' stored_server) \<noteq> stored_server"
    by auto
  with a b show ?thesis
    by (simp add: post_disconnect_def stored_server_def initial_server_def)
qed

text \<open>
  Claim C9, amended. Disconnect always reports success. Calling it twice in a row ends
  in the state that one call ends in, the second call changing nothing and sending
  nothing to the transport: no client, QR image, pairing timer or state is left for the
  account and its stored credentials are gone. On an account without a registered
  client it still removes whatever QR image, timer, state and stored credentials are
  left over; it changes nothing when the account has none of these.
\<close>

theorem disconnect_idempotent:
  "snd (post_disconnect a s) = Disconnected
   \<and> fst (post_disconnect a (fst (post_disconnect a s))) = fst (post_disconnect a s)
   \<and> destroyClient_calls a t (fst (post_disconnect a s)) = []
   \<and> map_of (clients (fst (post_disconnect a s))) a = None
   \<and> map_of (qrCodes (fst (post_disconnect a s))) a = None
   \<and> map_of (qrTimeouts (fst (post_disconnect a s))) a = None
   \<and> map_of (clientStates (fst (post_disconnect a s))) a = None
   \<and> authStore (fst (post_disconnect a s)) a = None
   \<and> (map_of (clients s) a = None \<and> map_of (qrCodes s) a = None
        \<and> map_of (qrTimeouts s) a = None \<and> map_of (clientStates s) a = None
        \<and> authStore s a = None \<longrightarrow> fst (post_disconnect a s) = s)"
proof (intro conjI impI)
  show "snd (post_disconnect a s) = Disconnected"
    by (simp add: post_disconnect_def)
  show "fst (post_disconnect a (fst (post_disconnect a s))) = fst (post_disconnect a s)"
    by (simp add: post_disconnect_def destroyClient_idem)
  show c: "map_of (clients (fst (post_disconnect a s))) a = None"
    by (simp add: post_disconnect_def destroyClient_eq map_of_delete_same)
  show "destroyClient_calls a t (fst (post_disconnect a s)) = []"
    using c by (simp add: destroyClient_calls_def)
  show "map_of (qrCodes (fst (post_disconnect a s))) a = None"
    by (simp add: post_disconnect_def destroyClient_eq map_of_delete_same)
  show "map_of (qrTimeouts (fst (post_disconnect a s))) a = None"
    by (simp add: post_disconnect_def destroyClient_eq map_of_delete_same)
  show "map_of (clientStates (fst (post_disconnect a s))) a = None"
    by (simp add: post_disconnect_def destroyClient_eq map_of_delete_same)
  show "authStore (fst (post_disconnect a s)) a = None"
    by (simp add: post_disconnect_def destroyClient_eq)
next
  assume "map_of (clients s) a = None \<and> map_of (qrCodes s) a = None
        \<and> map_of (qrTimeouts s) a = None \<and> map_of (clientStates s) a = None
        \<and> authStore s a = None"
  then show "fst (post_disconnect a s) = s"
    by (simp add: post_disconnect_def destroyClient_absent)
qed

theorem disconnect_idempotent_witness:
  "fst (post_disconnect ''acct1'' initial_server) = initial_server
   \<and> snd (post_disconnect ''acct1'' initial_server) = Disconnected
   \<and> destroyClient_calls ''acct1'' False paired_server = [Logout 1]
   \<and> destroyClient_calls ''acct1'' False (fst (post_disconnect ''acct1'' paired_server)) = []
   \<and> fst (post_disconnect ''acct1'' (fst (post_disconnect ''acct1'' paired_server)))
       = fst (post_disconnect ''acct1'' paired_server)
   \<and> authStore (fst (post_disconnect ''acct1'' paired_server)) ''acct1'' = None"
proof -
  have n: "map_of (clients initial_server) ''acct1'' = None \<and>
           map_of (qrCodes initial_server) ''acct1'' = None \<and>
           map_of (qrTimeouts initial_server) ''acct1'' = None \<and>
           map_of (clientStates initial_server) ''acct1'' = None \<and>
           authStore initial_server ''acct1'' = None"
    by (simp add: initial_server_def)
  have l: "destroyClient_calls ''acct1'' False paired_server = [Logout 1]"
    by (simp add: destroyClient_calls_def paired_server_def acct1_client_def)
  note t0 = disconnect_idempotent[of "''acct1''" initial_server False]
  note t1 = disconnect_idempotent[of "''acct1''" paired_server False]
  from t0 n have "fst (post_disconnect ''acct1'' initial_server) = initial_server"
    by blast
  moreover from t0 have "snd (post_disconnect ''acct1'' initial_server) = Disconnected"
    by blast
  moreover from t1 have
    "destroyClient_calls ''acct1'' False (fst (post_disconnect ''acct1'' paired_server)) = []"
    "fst (post_disconnect ''acct1'' (fst (post_disconnect ''acct1'' paired_server)))
       = fst (post_disconnect ''acct1'' paired_server)"
    "authStore (fst (post_disconnect ''acct1'' paired_server)) ''acct1'' = None"
    by blast+
  ultimately show ?thesis
    using l by simp
qed

subsection \<open>Quoted-message excerpt\<close>

text \<open>
  Claim C10. Every record posted for a message classified as a reply carries a
  quoted-message entry whose body is the extracted text of the quoted message cut to
  its first 100 characters, and whose sender is the participant of the quote when that
  is a non-empty string and the \<^verbatim>\<open>remoteJid\<close> of the conversation otherwise.
\<close>

theorem reply_excerpt:
  assumes "r \<in> set (webhook_records (relay_message cfg env msg))"
    and "message_type r = Reply"
  shows "\<exists>jid m ctx q qm.
           or_null (remoteJid msg) = Some jid \<and> content msg = Some m
           \<and> Option.bind (extendedTextMessage m) contextInfo = Some ctx
           \<and> quotedMessage ctx = Some q
           \<and> quoted_message (metadata r) = Some qm
           \<and> quoted_body qm = take 100 (extractMessageText (Some q))
           \<and> length (quoted_body qm) \<le> 100
           \<and> quoted_from qm = or_else (participant ctx) jid
           \<and> (participant ctx = None \<or> participant ctx = Some [] \<longrightarrow> quoted_from qm = jid)
           \<and> (\<forall>p. participant ctx = Some p \<and> p \<noteq> [] \<longrightarrow> quoted_from qm = p)"
proof -
  from assms(1) have "is_relayed msg"
    by (cases "is_relayed msg") (simp_all add: relay_message_skipped)
  then obtain jid m where j: "or_null (remoteJid msg) = Some jid" "jid \<noteq> ''status@broadcast''"
      "content msg = Some m"
    using is_relayedD by blast
  from assms(1) have r: "r = build_record cfg msg jid m (fst (media_fetch cfg env msg m))"
    by (simp add: relay_message_records[OF j])
  with assms(2) have ty: "fst (detectMessageType (Some m)) = Reply"
    by (simp add: record_message_type)
  then obtain ctx q where c: "Option.bind (extendedTextMessage m) contextInfo = Some ctx"
      "quotedMessage ctx = Some q"
    using detect_reply quoted_ofD by blast
  let ?qm = "\<lparr>quoted_id = or_null (stanzaId ctx),
              quoted_body = take 100 (extractMessageText (Some q)),
              quoted_from = or_else (participant ctx) jid\<rparr>"
  have qm: "quoted_message (metadata r) = Some ?qm"
    using ty c by (simp add: r record_quoted reply_metadata_def)
  have "quoted_body ?qm = take 100 (extractMessageText (Some q))" by simp
  moreover have "length (quoted_body ?qm) \<le> 100" by simp
  moreover have "quoted_from ?qm = or_else (participant ctx) jid" by simp
  moreover have "participant ctx = None \<or> participant ctx = Some [] \<longrightarrow> quoted_from ?qm = jid"
    by (auto simp: or_else_def)
  moreover have "\<forall>p. participant ctx = Some p \<and> p \<noteq> [] \<longrightarrow> quoted_from ?qm = p"
    by (auto simp: or_else_def)
  ultimately show ?thesis
    using j c qm by blast
qed

theorem reply_excerpt_witness:
  "reply_record \<in> set (webhook_records (relay_message relay_cfg0 env_ok reply_msg))
   \<and> message_type reply_record = Reply
   \<and> map_option quoted_body (quoted_message (metadata reply_record))
       = Some (replicate 100 (CHR ''x''))
   \<and> map_option quoted_from (quoted_message (metadata reply_record))
       = Some ''5491100000000@s.whatsapp.net''
   \<and> (\<exists>jid m ctx q qm.
           or_null (remoteJid reply_msg) = Some jid \<and> content reply_msg = Some m
           \<and> Option.bind (extendedTextMessage m) contextInfo = Some ctx
           \<and> quotedMessage ctx = Some q
           \<and> quoted_message (metadata reply_record) = Some qm
           \<and> quoted_body qm = take 100 (extractMessageText (Some q))
           \<and> length (quoted_body qm) \<le> 100
           \<and> quoted_from qm = or_else (participant ctx) jid)"
proof -
  have j: "or_null (remoteJid reply_msg) = Some ''5491100000000@s.whatsapp.net''"
    "''5491100000000@s.whatsapp.net'' \<noteq> ''status@broadcast''"
    "content reply_msg = Some reply_content"
    by (simp_all add: reply_msg_def or_null_def)
  have d: "detectMessageType (Some reply_content) = (Reply, Some ''text'')"
    by (simp add: detectMessageType_def reply_content_def quoted_of_def)
  have f: "fst (media_fetch relay_cfg0 env_ok reply_msg reply_content) = None"
    by (simp add: media_fetch_def d is_media_class_def)
  have m: "reply_record \<in> set (webhook_records (relay_message relay_cfg0 env_ok reply_msg))"
    by (simp add: relay_message_records[OF j] f reply_record_def)
  have t: "message_type reply_record = Reply"
    by (simp add: reply_record_def record_message_type d)
  have x: "extractMessageText (Some quoted_text) = replicate 120 (CHR ''x'')"
    by (simp add: extractMessageText_def quoted_text_def or_else_def)
  have rm: "reply_metadata reply_content ''5491100000000@s.whatsapp.net''
      = Some \<lparr>quoted_id = Some ''Q1'', quoted_body = replicate 100 (CHR ''x''),
              quoted_from = ''5491100000000@s.whatsapp.net''\<rparr>"
    by (simp add: reply_metadata_def reply_content_def x or_null_def or_else_def)
  have q: "quoted_message (metadata reply_record)
      = Some \<lparr>quoted_id = Some ''Q1'', quoted_body = replicate 100 (CHR ''x''),
              quoted_from = ''5491100000000@s.whatsapp.net''\<rparr>"
    by (simp add: reply_record_def record_quoted d rm)
  from reply_excerpt[OF m t] have
    "\<exists>jid m ctx q qm.
           or_null (remoteJid reply_msg) = Some jid \<and> content reply_msg = Some m
           \<and> Option.bind (extendedTextMessage m) contextInfo = Some ctx
           \<and> quotedMessage ctx = Some q
           \<and> quoted_message (metadata reply_record) = Some qm
           \<and> quoted_body qm = take 100 (extractMessageText (Some q))
           \<and> length (quoted_body qm) \<le> 100
           \<and> quoted_from qm = or_else (participant ctx) jid"
    by blast
  with m t q show ?thesis
    by simp
qed

end
